theory Spec2Isabelle
  imports Main "HOL-Library.AList" "HOL-Library.Sublist"
begin

text \<open>
  A shallow embedding of the session recorder of concurrent-browser-mcp (the class
  \<^verbatim>\<open>SessionRecorder\<close>: recording, sanitizing, persistence, replay, comparison and code
  generation), and the properties of it that the specification states. The definitions
  follow the methods of the class and keep their names; the theorems come after all
  definitions.
\<close>

section \<open>JavaScript values\<close>

text \<open>
  The session recorder moves \<^verbatim>\<open>any\<close>-typed bags around: tool parameters, tool results,
  metadata. They are modelled by the values a JSON document or an object literal can hold.
  An object is the list of its own enumerable properties in property order (keys are
  distinct: the operations below keep them so); a string is the list of its code units;
  a number is an integer (no operation of the recorder that is modelled here produces a
  fraction, and \<^verbatim>\<open>NaN\<close> only arises inside arithmetic, see \<open>num\<close>).
\<close>

datatype jsval =
    JUndefined
  | JNull
  | JBool bool
  | JNum int
  | JStr string
  | JArr "jsval list"
  | JObj "(string \<times> jsval) list"

datatype error =
    TypeError
  | SessionNotFound string
  | ENOENT string
  | SyntaxError
  | Thrown string
  | Unsupported

text \<open>
  \<open>TypeError\<close>, \<open>SyntaxError\<close> are the engine's exceptions, \<open>SessionNotFound\<close> is the
  recorder's own \<^verbatim>\<open>new Error(...)\<close>, \<open>ENOENT\<close> a read of a file that does not exist,
  \<open>Thrown\<close> an exception raised by a collaborator (rendered as text). \<open>Unsupported\<close> is
  not an exception of the source: the embedding stops with it where the source goes on
  with a value the model has no term for: a text converted to a number that is not an
  integer; in the sanitizer on a store of objects, a string or an object converted to a
  number; in the replay engine, whose session is a typed record, a loaded document that
  lacks the declared fields.
\<close>

definition quote_char :: char where
  "quote_char = CHR 0x27"

definition backslash :: char where
  "backslash = CHR 0x5C"

definition newline :: char where
  "newline = CHR 0x0A"

fun truthy :: "jsval \<Rightarrow> bool" where
  "truthy JUndefined = False"
| "truthy JNull = False"
| "truthy (JBool b) = b"
| "truthy (JNum n) = (n \<noteq> 0)"
| "truthy (JStr s) = (s \<noteq> [])"
| "truthy (JArr xs) = True"
| "truthy (JObj kvs) = True"

fun nullish :: "jsval \<Rightarrow> bool" where
  "nullish JUndefined = True"
| "nullish JNull = True"
| "nullish v = False"

subsection \<open>Decimal rendering of integers\<close>

text \<open>The digit \<open>d < 10\<close> as a character.\<close>

definition digit_char :: "nat \<Rightarrow> char" where
  "digit_char d = ''0123456789'' ! d"

function string_of_nat :: "nat \<Rightarrow> string" where
  "string_of_nat n =
     (if n < 10 then [digit_char n] else string_of_nat (n div 10) @ [digit_char (n mod 10)])"
  by pat_completeness auto
termination
  by (relation "measure id") auto

declare string_of_nat.simps [simp del]

definition string_of_int :: "int \<Rightarrow> string" where
  "string_of_int i = (if i < 0 then CHR ''-'' # string_of_nat (nat (- i)) else string_of_nat (nat i))"

subsection \<open>Properties\<close>

definition index_props :: "jsval list \<Rightarrow> (string \<times> jsval) list" where
  "index_props xs = zip (map string_of_nat [0..<length xs]) xs"

text \<open>\<^verbatim>\<open>{ ...v }\<close>: the own enumerable properties of \<open>v\<close>, copied into a fresh object.\<close>

fun spread :: "jsval \<Rightarrow> (string \<times> jsval) list" where
  "spread (JObj kvs) = kvs"
| "spread (JArr xs) = index_props xs"
| "spread (JStr s) = index_props (map (\<lambda>c. JStr [c]) s)"
| "spread v = []"

text \<open>
  What a member access \<^verbatim>\<open>v.k\<close> can read on a value that is neither \<^verbatim>\<open>null\<close> nor
  \<^verbatim>\<open>undefined\<close>. Inherited methods are not values of the model; none of the property names
  the recorder reads as a value (data, html, markdown, content, screenshot, url, title,
  success, length, password, token, apiKey, secret, selector, text, value, script,
  fullPage, timeout, id, config, viewport, width, height, actions, tool, parameters) is
  the name of one.
\<close>

fun readable_props :: "jsval \<Rightarrow> (string \<times> jsval) list" where
  "readable_props (JObj kvs) = kvs"
| "readable_props (JArr xs) = (''length'', JNum (int (length xs))) # index_props xs"
| "readable_props (JStr s) =
     (''length'', JNum (int (length s))) # index_props (map (\<lambda>c. JStr [c]) s)"
| "readable_props v = []"

definition own :: "(string \<times> jsval) list \<Rightarrow> string \<Rightarrow> jsval" where
  "own kvs k = (case map_of kvs k of None \<Rightarrow> JUndefined | Some v \<Rightarrow> v)"

text \<open>\<^verbatim>\<open>v.k\<close>: a TypeError on \<^verbatim>\<open>null\<close> and \<^verbatim>\<open>undefined\<close>.\<close>

definition member :: "jsval \<Rightarrow> string \<Rightarrow> error + jsval" where
  "member v k = (if nullish v then Inl TypeError else Inr (own (readable_props v) k))"

text \<open>\<^verbatim>\<open>v?.k\<close>: \<^verbatim>\<open>undefined\<close> on \<^verbatim>\<open>null\<close> and \<^verbatim>\<open>undefined\<close>.\<close>

definition opt_member :: "jsval \<Rightarrow> string \<Rightarrow> jsval" where
  "opt_member v k = (if nullish v then JUndefined else own (readable_props v) k)"

text \<open>
  \<^verbatim>\<open>a === b\<close>. Two objects (or arrays) are equal only when they are the same object; the
  values compared by the recorder come from different sources (a stored record and a
  fresh tool result), so two objects are never the same one.
\<close>

fun strict_eq :: "jsval \<Rightarrow> jsval \<Rightarrow> bool" where
  "strict_eq (JArr xs) b = False"
| "strict_eq (JObj kvs) b = False"
| "strict_eq a b = (a = b)"

section \<open>The platform\<close>

datatype num = NaN | Num int

text \<open>
  The library and engine functions the recorder relies on and whose code is not part of
  the repository: the identifier generator (as a function of the number of identifiers
  drawn before), the rendering of a time as ISO-8601 text, the JSON codec of the engine,
  and the two conversions between numbers and text where they are not plain decimal:
  \<open>numberToString\<close> is the engine's rendering of a number beyond the safe integers
  (shortest digits that read back, an exponent from 22 digits on), \<open>stringToNumber\<close> its
  reading of a text as a number (\<open>None\<close> when the number is not an integer). The
  last two are the file system's view of paths: \<^verbatim>\<open>path.join\<close> of a directory and a name, and
  \<^verbatim>\<open>fs.readdir\<close>, the names directly under a directory among the paths of the files that
  exist.
\<close>

record platform =
  uuidv4 :: "nat \<Rightarrow> string"
  toISOString :: "nat \<Rightarrow> string"
  stringify :: "jsval \<Rightarrow> string"
  parse :: "string \<Rightarrow> jsval option"
  numberToString :: "int \<Rightarrow> string"
  stringToNumber :: "string \<Rightarrow> num option"
  path_join :: "string \<Rightarrow> string \<Rightarrow> string"
  readdir :: "string list \<Rightarrow> string \<Rightarrow> string list"

definition thenE :: "error + 'a \<Rightarrow> ('a \<Rightarrow> error + 'b) \<Rightarrow> error + 'b" where
  "thenE x f = (case x of Inl e \<Rightarrow> Inl e | Inr v \<Rightarrow> f v)"

fun sequence :: "(error + 'a) list \<Rightarrow> error + 'a list" where
  "sequence [] = Inr []"
| "sequence (x # xs) =
     (case x of
        Inl e \<Rightarrow> Inl e
      | Inr v \<Rightarrow> (case sequence xs of Inl e \<Rightarrow> Inl e | Inr vs \<Rightarrow> Inr (v # vs)))"

fun join :: "string \<Rightarrow> string list \<Rightarrow> string" where
  "join sep [] = []"
| "join sep [x] = x"
| "join sep (x # y # ys) = x @ sep @ join sep (y # ys)"

subsection \<open>Conversion to text\<close>

text \<open>
  The text of a number: an integer up to \<open>2 ^ 53\<close> in absolute value is printed in
  decimal, digit by digit.
\<close>

definition number_text :: "platform \<Rightarrow> int \<Rightarrow> string" where
  "number_text P n = (if abs n \<le> 2 ^ 53 then string_of_int n else numberToString P n)"

text \<open>
  The text a template literal puts for \<^verbatim>\<open>${v}\<close>. An array is joined with commas, its
  \<^verbatim>\<open>null\<close> and \<^verbatim>\<open>undefined\<close> elements empty; an object gives \<^verbatim>\<open>[object Object]\<close>, unless an
  own property hides \<^verbatim>\<open>toString\<close>: it cannot be a function in a recorded value, and the
  conversion throws.
\<close>

fun to_string :: "platform \<Rightarrow> jsval \<Rightarrow> error + string" where
  "to_string P JUndefined = Inr ''undefined''"
| "to_string P JNull = Inr ''null''"
| "to_string P (JBool b) = Inr (if b then ''true'' else ''false'')"
| "to_string P (JNum n) = Inr (number_text P n)"
| "to_string P (JStr s) = Inr s"
| "to_string P (JArr xs) =
     (case sequence (map (\<lambda>x. if nullish x then Inr [] else to_string P x) xs) of
        Inl e \<Rightarrow> Inl e
      | Inr ss \<Rightarrow> Inr (join '','' ss))"
| "to_string P (JObj kvs) =
     (if map_of kvs ''toString'' = None then Inr ''[object Object]'' else Inl TypeError)"

subsection \<open>Numbers in arithmetic\<close>

definition string_number :: "platform \<Rightarrow> string \<Rightarrow> error + num" where
  "string_number P s = (case stringToNumber P s of None \<Rightarrow> Inl Unsupported | Some n \<Rightarrow> Inr n)"

text \<open>
  The number an operand of \<^verbatim>\<open>>\<close>, \<^verbatim>\<open>-\<close> or \<^verbatim>\<open>*\<close> is converted to. An array or an object
  is converted to its text first (its \<^verbatim>\<open>valueOf\<close> gives no primitive).
\<close>

fun to_number :: "platform \<Rightarrow> jsval \<Rightarrow> error + num" where
  "to_number P JUndefined = Inr NaN"
| "to_number P JNull = Inr (Num 0)"
| "to_number P (JBool b) = Inr (Num (if b then 1 else 0))"
| "to_number P (JNum n) = Inr (Num n)"
| "to_number P (JStr s) = string_number P s"
| "to_number P v = thenE (to_string P v) (string_number P)"

fun num_sub :: "num \<Rightarrow> num \<Rightarrow> num" where
  "num_sub (Num a) (Num b) = Num (a - b)"
| "num_sub a b = NaN"

fun num_abs :: "num \<Rightarrow> num" where
  "num_abs (Num a) = Num (abs a)"
| "num_abs NaN = NaN"

fun num_gt :: "num \<Rightarrow> int \<Rightarrow> bool" where
  "num_gt (Num a) n = (a > n)"
| "num_gt NaN n = False"

section \<open>Sanitizer and capture policy\<close>

definition sensitiveFields :: "string list" where
  "sensitiveFields = [''password'', ''token'', ''apiKey'', ''secret'']"

definition REDACTED :: string where
  "REDACTED = ''***REDACTED***''"

definition SCREENSHOT_DATA :: string where
  "SCREENSHOT_DATA = ''[SCREENSHOT_DATA]''"

definition TRUNCATED :: string where
  "TRUNCATED = ''...[TRUNCATED]''"

definition redact_field :: "(string \<times> jsval) list \<Rightarrow> string \<Rightarrow> (string \<times> jsval) list" where
  "redact_field sanitized field =
     (if truthy (own sanitized field) then AList.update field (JStr REDACTED) sanitized
      else sanitized)"

definition sanitizeParameters :: "jsval \<Rightarrow> jsval" where
  "sanitizeParameters params =
     (let sanitized = spread params;
          sanitized = foldl redact_field sanitized sensitiveFields;
          sanitized = (if truthy (own sanitized ''screenshot'')
                       then AList.update ''screenshot'' (JStr SCREENSHOT_DATA) sanitized
                       else sanitized)
      in JObj sanitized)"

text \<open>
  One of the three truncation statements of \<^verbatim>\<open>sanitizeResult\<close>, on the properties of the
  \<^verbatim>\<open>data\<close> object:
  \<^verbatim>\<open>if (data?.f && data.f.length > 1000) data.f = data.f.substring(0, 1000) + '...[TRUNCATED]'\<close>.
  \<^verbatim>\<open>substring\<close> exists on strings only.
\<close>

definition truncate_field ::
  "platform \<Rightarrow> string \<Rightarrow> (string \<times> jsval) list \<Rightarrow> error + (string \<times> jsval) list" where
  "truncate_field P f dkvs =
     (let v = own dkvs f in
      if \<not> truthy v then Inr dkvs
      else case to_number P (own (readable_props v) ''length'') of
             Inl e \<Rightarrow> Inl e
           | Inr len \<Rightarrow>
               if \<not> num_gt len 1000 then Inr dkvs
               else (case v of
                       JStr s \<Rightarrow> Inr (AList.update f (JStr (take 1000 s @ TRUNCATED)) dkvs)
                     | _ \<Rightarrow> Inl TypeError))"

definition replace_screenshot :: "(string \<times> jsval) list \<Rightarrow> (string \<times> jsval) list" where
  "replace_screenshot dkvs =
     (if truthy (own dkvs ''screenshot'')
      then AList.update ''screenshot'' (JStr SCREENSHOT_DATA) dkvs else dkvs)"

text \<open>
  The statements of \<^verbatim>\<open>sanitizeResult\<close> on a \<^verbatim>\<open>data\<close> value, in the source's order: html,
  screenshot, markdown, content. A truthy \<^verbatim>\<open>data\<close> that is not an object has none of the
  four properties and is left alone.
\<close>

definition sanitize_data :: "platform \<Rightarrow> jsval \<Rightarrow> error + jsval" where
  "sanitize_data P d =
     (case d of
        JObj dkvs \<Rightarrow>
          (case truncate_field P ''html'' dkvs of
             Inl e \<Rightarrow> Inl e
           | Inr d1 \<Rightarrow>
               (case truncate_field P ''markdown'' (replace_screenshot d1) of
                  Inl e \<Rightarrow> Inl e
                | Inr d2 \<Rightarrow>
                    (case truncate_field P ''content'' d2 of
                       Inl e \<Rightarrow> Inl e
                     | Inr d3 \<Rightarrow> Inr (JObj d3))))
      | _ \<Rightarrow> Inr d)"

definition sanitizeResult :: "platform \<Rightarrow> jsval \<Rightarrow> error + jsval" where
  "sanitizeResult P result =
     (if truthy result \<and> truthy (own (readable_props result) ''data'') then
        (let sanitized = spread result in
         case sanitize_data P (own sanitized ''data'') of
           Inl e \<Rightarrow> Inl e
         | Inr d \<Rightarrow> Inr (JObj (AList.update ''data'' d sanitized)))
      else Inr result)"

definition dataCapturingTools :: "string list" where
  "dataCapturingTools =
     [''browser_get_page_info'', ''browser_screenshot'', ''browser_get_markdown'',
      ''browser_get_element_text'', ''browser_navigate'']"

definition processResult :: "platform \<Rightarrow> bool \<Rightarrow> jsval \<Rightarrow> string \<Rightarrow> error + jsval" where
  "processResult P captureFullPageData result tool =
     (if \<not> truthy result then Inr result
      else if captureFullPageData \<and> tool \<in> set dataCapturingTools then Inr result
      else sanitizeResult P result)"

section \<open>Data model\<close>

record Viewport =
  width :: int
  height :: int

record Config =
  headless :: "bool option"
  viewport :: "Viewport option"
  userAgent :: "string option"

text \<open>
  The interfaces \<^verbatim>\<open>ActionRecord\<close> and \<^verbatim>\<open>Session\<close>. An optional field of a declared type
  is an \<open>option\<close>; an \<^verbatim>\<open>any\<close>-typed field is a \<open>jsval\<close>, \<open>JUndefined\<close> when absent. The
  two \<^verbatim>\<open>id\<close> and \<^verbatim>\<open>metadata\<close> fields carry a suffix (\<open>_a\<close> for the action, \<open>_s\<close> for the
  session).
\<close>

record ActionRecord =
  id_a :: string
  timestamp :: string
  tool :: string
  parameters :: jsval
  result :: jsval
  error :: "string option"
  duration :: "int option"
  metadata_a :: jsval
  pageData :: jsval

record Session =
  id_s :: string
  instanceId :: string
  browserType :: string
  startedAt :: string
  endedAt :: "string option"
  actions :: "ActionRecord list"
  metadata_s :: jsval
  config :: "Config option"

text \<open>The argument of \<^verbatim>\<open>startSession\<close> and the argument of \<^verbatim>\<open>recordAction\<close>.\<close>

record StartConfig =
  c_browserType :: string
  c_headless :: "bool option"
  c_viewport :: "Viewport option"
  c_userAgent :: "string option"
  c_metadata :: jsval

record ActionInput =
  in_tool :: string
  in_parameters :: jsval
  in_result :: jsval
  in_error :: "string option"
  in_metadata :: jsval
  in_pageData :: jsval

text \<open>
  The recorder object (\<open>sessions\<close> is the \<^verbatim>\<open>Map\<close> keyed by instance identifier, in
  insertion order) together with the part of the environment it acts on: the files
  written so far (path and content), the clock in milliseconds, the number of
  identifiers drawn, and the pending timers (due time and the instance whose session the
  timer deletes).
\<close>

record recorder =
  sessions :: "(string \<times> Session) list"
  sessionsDir :: string
  autoSave :: bool
  recordingEnabled :: bool
  captureFullPageData :: bool
  files :: "(string \<times> string) list"
  clock :: nat
  uuids :: nat
  timers :: "(nat \<times> string) list"

subsection \<open>Sessions as JavaScript objects\<close>

text \<open>
  The object a typed value is in memory, as the serializer sees it: a property whose
  value is \<^verbatim>\<open>undefined\<close> is not serialized, so it is left out.
\<close>

definition obj :: "(string \<times> jsval) list \<Rightarrow> jsval" where
  "obj kvs = JObj (filter (\<lambda>kv. snd kv \<noteq> JUndefined) kvs)"

definition js_opt :: "('a \<Rightarrow> jsval) \<Rightarrow> 'a option \<Rightarrow> jsval" where
  "js_opt f x = (case x of None \<Rightarrow> JUndefined | Some y \<Rightarrow> f y)"

definition js_of_Viewport :: "Viewport \<Rightarrow> jsval" where
  "js_of_Viewport v = JObj [(''width'', JNum (width v)), (''height'', JNum (height v))]"

definition js_of_Config :: "Config \<Rightarrow> jsval" where
  "js_of_Config c =
     obj [(''headless'', js_opt JBool (headless c)),
          (''viewport'', js_opt js_of_Viewport (viewport c)),
          (''userAgent'', js_opt JStr (userAgent c))]"

definition js_of_ActionRecord :: "ActionRecord \<Rightarrow> jsval" where
  "js_of_ActionRecord a =
     obj [(''id'', JStr (id_a a)),
          (''timestamp'', JStr (timestamp a)),
          (''tool'', JStr (tool a)),
          (''parameters'', parameters a),
          (''result'', result a),
          (''error'', js_opt JStr (error a)),
          (''duration'', js_opt JNum (duration a)),
          (''metadata'', metadata_a a),
          (''pageData'', pageData a)]"

definition js_of_Session :: "Session \<Rightarrow> jsval" where
  "js_of_Session s =
     obj [(''id'', JStr (id_s s)),
          (''instanceId'', JStr (instanceId s)),
          (''browserType'', JStr (browserType s)),
          (''startedAt'', JStr (startedAt s)),
          (''actions'', JArr (map js_of_ActionRecord (actions s))),
          (''metadata'', metadata_s s),
          (''config'', js_opt js_of_Config (config s)),
          (''endedAt'', js_opt JStr (endedAt s))]"

text \<open>
  The declared fields of a document, read back as typed values: \<open>None\<close> when the document
  lacks one of them or holds a value of another type. The recorder applies no such check
  (\<^verbatim>\<open>JSON.parse(content) as Session\<close> is an unchecked cast); the functions below say which
  documents are the objects of typed sessions.
\<close>

fun str_of :: "jsval \<Rightarrow> string option" where
  "str_of (JStr s) = Some s"
| "str_of v = None"

fun opt_str_of :: "jsval \<Rightarrow> string option option" where
  "opt_str_of JUndefined = Some None"
| "opt_str_of (JStr s) = Some (Some s)"
| "opt_str_of v = None"

fun opt_bool_of :: "jsval \<Rightarrow> bool option option" where
  "opt_bool_of JUndefined = Some None"
| "opt_bool_of (JBool b) = Some (Some b)"
| "opt_bool_of v = None"

fun opt_num_of :: "jsval \<Rightarrow> int option option" where
  "opt_num_of JUndefined = Some None"
| "opt_num_of (JNum n) = Some (Some n)"
| "opt_num_of v = None"

fun Viewport_of_js :: "jsval \<Rightarrow> Viewport option" where
  "Viewport_of_js (JObj kvs) =
     (case (own kvs ''width'', own kvs ''height'') of
        (JNum w, JNum h) \<Rightarrow> Some \<lparr>width = w, height = h\<rparr>
      | _ \<Rightarrow> None)"
| "Viewport_of_js v = None"

fun opt_Viewport_of_js :: "jsval \<Rightarrow> Viewport option option" where
  "opt_Viewport_of_js JUndefined = Some None"
| "opt_Viewport_of_js v = map_option Some (Viewport_of_js v)"

fun Config_of_js :: "jsval \<Rightarrow> Config option" where
  "Config_of_js (JObj kvs) =
     (case (opt_bool_of (own kvs ''headless''), opt_Viewport_of_js (own kvs ''viewport''),
            opt_str_of (own kvs ''userAgent'')) of
        (Some h, Some v, Some u) \<Rightarrow> Some \<lparr>headless = h, viewport = v, userAgent = u\<rparr>
      | _ \<Rightarrow> None)"
| "Config_of_js v = None"

fun opt_Config_of_js :: "jsval \<Rightarrow> Config option option" where
  "opt_Config_of_js JUndefined = Some None"
| "opt_Config_of_js v = map_option Some (Config_of_js v)"

fun ActionRecord_of_js :: "jsval \<Rightarrow> ActionRecord option" where
  "ActionRecord_of_js (JObj kvs) =
     (case (str_of (own kvs ''id''), str_of (own kvs ''timestamp''), str_of (own kvs ''tool''),
            opt_str_of (own kvs ''error''), opt_num_of (own kvs ''duration'')) of
        (Some i, Some ts, Some t, Some e, Some d) \<Rightarrow>
          Some \<lparr>id_a = i, timestamp = ts, tool = t, parameters = own kvs ''parameters'',
                result = own kvs ''result'', error = e, duration = d,
                metadata_a = own kvs ''metadata'', pageData = own kvs ''pageData''\<rparr>
      | _ \<Rightarrow> None)"
| "ActionRecord_of_js v = None"

fun all_some :: "'a option list \<Rightarrow> 'a list option" where
  "all_some [] = Some []"
| "all_some (None # xs) = None"
| "all_some (Some x # xs) = map_option ((#) x) (all_some xs)"

fun actions_of_js :: "jsval \<Rightarrow> ActionRecord list option" where
  "actions_of_js (JArr xs) = all_some (map ActionRecord_of_js xs)"
| "actions_of_js v = None"

fun Session_of_js :: "jsval \<Rightarrow> Session option" where
  "Session_of_js (JObj kvs) =
     (case (str_of (own kvs ''id''), str_of (own kvs ''instanceId''),
            str_of (own kvs ''browserType''), str_of (own kvs ''startedAt''),
            opt_str_of (own kvs ''endedAt''), actions_of_js (own kvs ''actions''),
            opt_Config_of_js (own kvs ''config'')) of
        (Some i, Some ii, Some b, Some st, Some en, Some acts, Some c) \<Rightarrow>
          Some \<lparr>id_s = i, instanceId = ii, browserType = b, startedAt = st, endedAt = en,
                actions = acts, metadata_s = own kvs ''metadata'', config = c\<rparr>
      | _ \<Rightarrow> None)"
| "Session_of_js v = None"

section \<open>Session store\<close>

text \<open>
  Every operation takes the recorder and returns its outcome (\<open>Inl\<close> an exception, that
  is a rejected promise) with the recorder after it.
\<close>

definition dashes :: "string \<Rightarrow> string" where
  "dashes s = map (\<lambda>c. if c = CHR '':'' \<or> c = CHR ''.'' then CHR ''-'' else c) s"

definition saveSession :: "platform \<Rightarrow> recorder \<Rightarrow> string \<Rightarrow> (error + string) \<times> recorder" where
  "saveSession P st iid =
     (case map_of (sessions st) iid of
        None \<Rightarrow> (Inl (SessionNotFound iid), st)
      | Some session \<Rightarrow>
          let filename = ''session_'' @ id_s session @ ''_''
                           @ dashes (toISOString P (clock st)) @ ''.json'';
              filepath = path_join P (sessionsDir st) filename
          in (Inr filepath,
              st\<lparr>files := AList.update filepath (stringify P (js_of_Session session)) (files st)\<rparr>))"

text \<open>
  \<^verbatim>\<open>loadSession\<close> returns whatever \<^verbatim>\<open>JSON.parse\<close> makes of the file: any value of a JSON
  document, \<^verbatim>\<open>null\<close> and documents with other fields included.
\<close>

definition loadSession :: "platform \<Rightarrow> recorder \<Rightarrow> string \<Rightarrow> error + jsval" where
  "loadSession P st filepath =
     (case map_of (files st) filepath of
        None \<Rightarrow> Inl (ENOENT filepath)
      | Some content \<Rightarrow>
          (case parse P content of
             None \<Rightarrow> Inl SyntaxError
           | Some v \<Rightarrow> Inr v))"

text \<open>The tail of the three recording operations: \<^verbatim>\<open>if (this.autoSave) await this.saveSession(instanceId)\<close>.\<close>

definition auto_save :: "platform \<Rightarrow> recorder \<Rightarrow> string \<Rightarrow> (error + unit) \<times> recorder" where
  "auto_save P st iid =
     (if autoSave st then
        (case saveSession P st iid of
           (Inl e, st') \<Rightarrow> (Inl e, st')
         | (Inr p, st') \<Rightarrow> (Inr (), st'))
      else (Inr (), st))"

definition startSession ::
  "platform \<Rightarrow> recorder \<Rightarrow> string \<Rightarrow> StartConfig \<Rightarrow> (error + string) \<times> recorder" where
  "startSession P st iid cfg =
     (if \<not> recordingEnabled st then (Inr '''', st)
      else
        let sessionId = uuidv4 P (uuids st);
            session = \<lparr>id_s = sessionId, instanceId = iid, browserType = c_browserType cfg,
                       startedAt = toISOString P (clock st), endedAt = None, actions = [],
                       metadata_s = c_metadata cfg,
                       config = Some \<lparr>headless = c_headless cfg, viewport = c_viewport cfg,
                                      userAgent = c_userAgent cfg\<rparr>\<rparr>;
            st1 = st\<lparr>uuids := Suc (uuids st),
                     sessions := AList.update iid session (sessions st)\<rparr>
        in (case auto_save P st1 iid of
              (Inl e, st2) \<Rightarrow> (Inl e, st2)
            | (Inr u, st2) \<Rightarrow> (Inr sessionId, st2)))"

text \<open>\<^verbatim>\<open>action.result ? this.processResult(action.result, action.tool) : undefined\<close>\<close>

definition stored_result :: "platform \<Rightarrow> recorder \<Rightarrow> ActionInput \<Rightarrow> error + jsval" where
  "stored_result P st action =
     (if truthy (in_result action)
      then processResult P (captureFullPageData st) (in_result action) (in_tool action)
      else Inr JUndefined)"

definition recordAction ::
  "platform \<Rightarrow> recorder \<Rightarrow> string \<Rightarrow> ActionInput \<Rightarrow> (error + unit) \<times> recorder" where
  "recordAction P st iid action =
     (if \<not> recordingEnabled st then (Inr (), st)
      else case map_of (sessions st) iid of
        None \<Rightarrow> (Inr (), st)
      | Some session \<Rightarrow>
          let startTime = clock st;
              st1 = st\<lparr>uuids := Suc (uuids st)\<rparr>
          in (case stored_result P st action of
                Inl e \<Rightarrow> (Inl e, st1)
              | Inr res \<Rightarrow>
                  let actionRecord =
                        \<lparr>id_a = uuidv4 P (uuids st),
                         timestamp = toISOString P (clock st),
                         tool = in_tool action,
                         parameters = sanitizeParameters (in_parameters action),
                         result = res,
                         error = in_error action,
                         duration = Some (int (clock st) - int startTime),
                         metadata_a = in_metadata action,
                         pageData = in_pageData action\<rparr>;
                      st2 = st1\<lparr>sessions :=
                               AList.update iid
                                 (session\<lparr>actions := actions session @ [actionRecord]\<rparr>)
                                 (sessions st1)\<rparr>
                  in auto_save P st2 iid))"

definition endSession :: "platform \<Rightarrow> recorder \<Rightarrow> string \<Rightarrow> (error + unit) \<times> recorder" where
  "endSession P st iid =
     (if \<not> recordingEnabled st then (Inr (), st)
      else case map_of (sessions st) iid of
        None \<Rightarrow> (Inr (), st)
      | Some session \<Rightarrow>
          let st1 = st\<lparr>sessions :=
                        AList.update iid
                          (session\<lparr>endedAt := Some (toISOString P (clock st))\<rparr>)
                          (sessions st)\<rparr>
          in (case auto_save P st1 iid of
                (Inl e, st2) \<Rightarrow> (Inl e, st2)
              | (Inr u, st2) \<Rightarrow>
                  (Inr (), st2\<lparr>timers := timers st2 @ [(clock st2 + 60000, iid)]\<rparr>)))"

text \<open>A timer set by \<^verbatim>\<open>endSession\<close> that comes due: \<^verbatim>\<open>this.sessions.delete(instanceId)\<close>.\<close>

definition fire_timer :: "recorder \<Rightarrow> recorder" where
  "fire_timer st =
     (case timers st of
        [] \<Rightarrow> st
      | (due, iid) # rest \<Rightarrow>
          st\<lparr>timers := rest, clock := max (clock st) due,
             sessions := AList.delete iid (sessions st)\<rparr>)"

section \<open>Comparison of an original and a replayed result\<close>

record Comparison =
  match :: bool
  differences :: jsval

definition diff_pair :: "jsval \<Rightarrow> jsval \<Rightarrow> jsval" where
  "diff_pair a b = JObj [(''original'', a), (''replay'', b)]"

text \<open>
  The content-length block of \<^verbatim>\<open>compareResults\<close>: the \<^verbatim>\<open>contentLength\<close> entry it adds to
  \<^verbatim>\<open>differences\<close>, if any. \<^verbatim>\<open>lengthDiff > originalLength * 0.1\<close> is computed by the source
  in double precision; on integers of the size of a string length the comparison has the
  outcome of the exact one, written here without fractions. A comparison with \<^verbatim>\<open>NaN\<close> is
  false.
\<close>

definition content_length_entry :: "platform \<Rightarrow> jsval \<Rightarrow> jsval \<Rightarrow> error + jsval option" where
  "content_length_entry P oc rc =
     (if truthy oc \<and> truthy rc then
        (let originalLength = own (readable_props oc) ''length'';
             replayLength = own (readable_props rc) ''length''
         in case to_number P originalLength of
              Inl e \<Rightarrow> Inl e
            | Inr a \<Rightarrow>
                (case to_number P replayLength of
                   Inl e \<Rightarrow> Inl e
                 | Inr b \<Rightarrow>
                     (case (num_abs (num_sub a b), a) of
                        (Num lengthDiff, Num n) \<Rightarrow>
                          if 10 * lengthDiff > n
                          then Inr (Some (JObj [(''original'', originalLength),
                                                (''replay'', replayLength),
                                                (''difference'', JNum lengthDiff)]))
                          else Inr None
                      | _ \<Rightarrow> Inr None)))
      else Inr None)"

definition compareResults ::
  "platform \<Rightarrow> jsval \<Rightarrow> jsval \<Rightarrow> string \<Rightarrow> bool \<Rightarrow> error + Comparison" where
  "compareResults P original replay tool_name compareContent =
     (if \<not> compareContent then
        (let same = strict_eq (opt_member original ''success'') (opt_member replay ''success'')
         in Inr \<lparr>match = same,
                 differences = (if same then JUndefined else diff_pair original replay)\<rparr>)
      else
        (let ourl = opt_member (opt_member original ''data'') ''url'';
             rurl = opt_member (opt_member replay ''data'') ''url'';
             hasSignificantDifferences = (\<not> strict_eq ourl rurl);
             d1 = (if strict_eq ourl rurl then []
                   else AList.update ''url'' (diff_pair ourl rurl) []);
             otitle = opt_member (opt_member original ''data'') ''title'';
             rtitle = opt_member (opt_member replay ''data'') ''title'';
             d2 = (if strict_eq otitle rtitle then d1
                   else AList.update ''title'' (diff_pair otitle rtitle) d1)
         in case content_length_entry P (opt_member (opt_member original ''data'') ''content'')
                   (opt_member (opt_member replay ''data'') ''content'') of
              Inl e \<Rightarrow> Inl e
            | Inr entry \<Rightarrow>
                (let d3 = (case entry of
                             None \<Rightarrow> d2
                           | Some c \<Rightarrow> AList.update ''contentLength'' c d2)
                 in Inr \<lparr>match = (\<not> hasSignificantDifferences),
                         differences = (if d3 = [] then JUndefined else JObj d3)\<rparr>)))"

section \<open>Code generation\<close>

text \<open>\<^verbatim>\<open>'${action.parameters.k}'\<close>: the parameter as text between single quotes, as it is.\<close>

definition sq :: "string \<Rightarrow> string" where
  "sq s = quote_char # s @ [quote_char]"

definition param_text :: "platform \<Rightarrow> ActionRecord \<Rightarrow> string \<Rightarrow> error + string" where
  "param_text P action k = thenE (member (parameters action) k) (to_string P)"

text \<open>\<^verbatim>\<open>${a ?? b}\<close> and \<^verbatim>\<open>${a || b}\<close>.\<close>

definition nullish_or :: "jsval \<Rightarrow> jsval \<Rightarrow> jsval" where
  "nullish_or a b = (if nullish a then b else a)"

definition falsy_or :: "jsval \<Rightarrow> jsval \<Rightarrow> jsval" where
  "falsy_or a b = (if truthy a then a else b)"

text \<open>\<^verbatim>\<open>v.replace(/'/g, "\\'")\<close>: a method of strings only.\<close>

definition escape_quotes :: "string \<Rightarrow> string" where
  "escape_quotes s = concat (map (\<lambda>c. if c = quote_char then [backslash, quote_char] else [c]) s)"

fun replace_quotes :: "jsval \<Rightarrow> error + string" where
  "replace_quotes (JStr s) = Inr (escape_quotes s)"
| "replace_quotes v = Inl TypeError"

subsection \<open>The script exporter\<close>

definition actionToPlaywrightCommand :: "platform \<Rightarrow> ActionRecord \<Rightarrow> error + string option" where
  "actionToPlaywrightCommand P action =
     (if tool action = ''browser_navigate'' then
        thenE (param_text P action ''url'') (\<lambda>u.
          Inr (Some (''await page.goto('' @ sq u @ '');'')))
      else if tool action = ''browser_click'' then
        thenE (param_text P action ''selector'') (\<lambda>s.
          Inr (Some (''await page.click('' @ sq s @ '');'')))
      else if tool action = ''browser_type'' then
        thenE (param_text P action ''selector'') (\<lambda>s.
        thenE (param_text P action ''text'') (\<lambda>t.
          Inr (Some (''await page.type('' @ sq s @ '', '' @ sq t @ '');''))))
      else if tool action = ''browser_fill'' then
        thenE (param_text P action ''selector'') (\<lambda>s.
        thenE (param_text P action ''value'') (\<lambda>v.
          Inr (Some (''await page.fill('' @ sq s @ '', '' @ sq v @ '');''))))
      else if tool action = ''browser_select_option'' then
        thenE (param_text P action ''selector'') (\<lambda>s.
        thenE (param_text P action ''value'') (\<lambda>v.
          Inr (Some (''await page.selectOption('' @ sq s @ '', '' @ sq v @ '');''))))
      else if tool action = ''browser_screenshot'' then
        thenE (member (parameters action) ''fullPage'') (\<lambda>f.
        thenE (to_string P (nullish_or f (JBool False))) (\<lambda>t.
          Inr (Some (''await page.screenshot({ fullPage: '' @ t @ '' });''))))
      else if tool action = ''browser_go_back'' then Inr (Some ''await page.goBack();'')
      else if tool action = ''browser_go_forward'' then Inr (Some ''await page.goForward();'')
      else if tool action = ''browser_refresh'' then Inr (Some ''await page.reload();'')
      else if tool action = ''browser_wait_for_element'' then
        thenE (param_text P action ''selector'') (\<lambda>s.
          Inr (Some (''await page.waitForSelector('' @ sq s @ '');'')))
      else if tool action = ''browser_evaluate'' then
        thenE (param_text P action ''script'') (\<lambda>s.
          Inr (Some (''await page.evaluate(() => { '' @ s @ '' });'')))
      else Inr None)"

text \<open>
  The loop of \<^verbatim>\<open>generatePlaywrightScript\<close>: a command that is \<^verbatim>\<open>null\<close> or the empty text
  adds no line.
\<close>

fun command_lines :: "platform \<Rightarrow> ActionRecord list \<Rightarrow> error + string list" where
  "command_lines P [] = Inr []"
| "command_lines P (a # as) =
     thenE (actionToPlaywrightCommand P a) (\<lambda>command.
     thenE (command_lines P as) (\<lambda>rest.
       Inr ((case command of
               None \<Rightarrow> []
             | Some c \<Rightarrow> (if c = [] then [] else [''  '' @ c])) @ rest)))"

definition generatePlaywrightScript :: "platform \<Rightarrow> Session \<Rightarrow> error + string" where
  "generatePlaywrightScript P session =
     (let cfg_viewport = (case config session of None \<Rightarrow> None | Some c \<Rightarrow> viewport c);
          cfg_userAgent = (case config session of None \<Rightarrow> None | Some c \<Rightarrow> userAgent c);
          cfg_headless = (case config session of None \<Rightarrow> None | Some c \<Rightarrow> headless c);
          head =
            [''// Generated Playwright script from session '' @ id_s session,
             ''// Created: '' @ startedAt session,
             '''',
             ''import { chromium, firefox, webkit } from '' @ sq ''playwright'' @ '';'',
             '''',
             ''async function replay() {'',
             ''  const browser = await '' @ browserType session @ ''.launch({'',
             ''    headless: '' @ (case cfg_headless of
                                      None \<Rightarrow> ''true''
                                    | Some b \<Rightarrow> (if b then ''true'' else ''false'')),
             ''  });'',
             '''',
             ''  const context = await browser.newContext({'',
             (case cfg_viewport of
                None \<Rightarrow> ''''
              | Some v \<Rightarrow> ''    viewport: { width: '' @ number_text P (width v)
                            @ '', height: '' @ number_text P (height v) @ '' },''),
             (case cfg_userAgent of
                None \<Rightarrow> ''''
              | Some u \<Rightarrow> (if u = [] then '''' else ''    userAgent: '' @ sq u)),
             ''  });'',
             '''',
             ''  const page = await context.newPage();'',
             '''']
      in thenE (command_lines P (actions session)) (\<lambda>commands.
           Inr (join [newline]
                  (head @ commands @ ['''', ''  await browser.close();'', ''}'', '''', ''replay();'']))))"

datatype export_format = Json | Playwright

definition exportAsScript :: "platform \<Rightarrow> recorder \<Rightarrow> string \<Rightarrow> export_format \<Rightarrow> error + string" where
  "exportAsScript P st iid format =
     (case map_of (sessions st) iid of
        None \<Rightarrow> Inl (SessionNotFound iid)
      | Some session \<Rightarrow>
          (case format of
             Json \<Rightarrow> Inr (stringify P (js_of_Session session))
           | Playwright \<Rightarrow> generatePlaywrightScript P session))"

subsection \<open>The test generator\<close>

text \<open>
  \<^verbatim>\<open>generatePlaywrightTest\<close> works on a session it has loaded from a file as well as on one
  of the recorder's own, and a loaded session is any document. The generator is therefore
  modelled on values: every field it reads is a member access, with the TypeError of an
  access on \<^verbatim>\<open>null\<close> or \<^verbatim>\<open>undefined\<close> and of a call of a method the value does not have.
\<close>

text \<open>\<^verbatim>\<open>action.parameters.k\<close> and \<^verbatim>\<open>'${action.parameters.k}'\<close> on a value.\<close>

definition test_param :: "jsval \<Rightarrow> string \<Rightarrow> error + jsval" where
  "test_param action k = thenE (member action ''parameters'') (\<lambda>ps. member ps k)"

definition test_param_text :: "platform \<Rightarrow> jsval \<Rightarrow> string \<Rightarrow> error + string" where
  "test_param_text P action k = thenE (test_param action k) (to_string P)"

text \<open>
  The \<^verbatim>\<open>switch (action.tool)\<close> of \<^verbatim>\<open>actionToPlaywrightTest\<close> compares with \<^verbatim>\<open>===\<close>: a tool that
  is not a string falls to the default.
\<close>

definition actionToPlaywrightTest :: "platform \<Rightarrow> jsval \<Rightarrow> error + string option" where
  "actionToPlaywrightTest P action =
     thenE (member action ''tool'') (\<lambda>tool_name.
      if tool_name = JStr ''browser_navigate'' then
        thenE (test_param_text P action ''url'') (\<lambda>u.
          Inr (Some (''  await page.goto('' @ sq u @ '');'')))
      else if tool_name = JStr ''browser_click'' then
        thenE (test_param_text P action ''selector'') (\<lambda>s.
          Inr (Some (''  await page.click('' @ sq s @ '');'')))
      else if tool_name = JStr ''browser_type'' then
        thenE (thenE (test_param action ''text'') replace_quotes) (\<lambda>text.
        thenE (test_param_text P action ''selector'') (\<lambda>s.
          Inr (Some (''  await page.type('' @ sq s @ '', '' @ sq text @ '');''))))
      else if tool_name = JStr ''browser_fill'' then
        thenE (thenE (test_param action ''value'') replace_quotes) (\<lambda>val.
        thenE (test_param_text P action ''selector'') (\<lambda>s.
          Inr (Some (''  await page.fill('' @ sq s @ '', '' @ sq val @ '');''))))
      else if tool_name = JStr ''browser_select_option'' then
        thenE (test_param_text P action ''selector'') (\<lambda>s.
        thenE (test_param_text P action ''value'') (\<lambda>v.
          Inr (Some (''  await page.selectOption('' @ sq s @ '', '' @ sq v @ '');''))))
      else if tool_name = JStr ''browser_screenshot'' then
        thenE (test_param action ''fullPage'') (\<lambda>f.
        thenE (to_string P (nullish_or f (JBool False))) (\<lambda>t.
          Inr (Some (''  await page.screenshot({ fullPage: '' @ t @ '' });''))))
      else if tool_name = JStr ''browser_go_back'' then Inr (Some ''  await page.goBack();'')
      else if tool_name = JStr ''browser_go_forward'' then Inr (Some ''  await page.goForward();'')
      else if tool_name = JStr ''browser_refresh'' then Inr (Some ''  await page.reload();'')
      else if tool_name = JStr ''browser_wait_for_element'' then
        thenE (test_param_text P action ''selector'') (\<lambda>s.
        thenE (test_param action ''timeout'') (\<lambda>t.
        thenE (to_string P (falsy_or t (JNum 30000))) (\<lambda>ms.
          Inr (Some (''  await page.waitForSelector('' @ sq s @ '', { timeout: '' @ ms @ '' });'')))))
      else if tool_name = JStr ''browser_evaluate'' then
        thenE (test_param_text P action ''script'') (\<lambda>s.
          Inr (Some (''  await page.evaluate(() => { '' @ s @ '' });'')))
      else Inr None)"

record TestOptions =
  testName :: "string option"
  expectedString :: "string option"
  timeout :: "int option"

text \<open>\<^verbatim>\<open>sessionIdOrPath.includes(t)\<close>\<close>

definition str_includes :: "string \<Rightarrow> string \<Rightarrow> bool" where
  "str_includes s t = (\<exists>i \<in> set [0..<Suc (length s)]. take (length t) (drop i s) = t)"

definition endsWith :: "string \<Rightarrow> string \<Rightarrow> bool" where
  "endsWith s t = (length t \<le> length s \<and> drop (length s - length t) s = t)"

text \<open>
  \<^verbatim>\<open>listSavedSessions\<close>: every \<^verbatim>\<open>.json\<close> file of the sessions directory with the value it
  parses to; a file that cannot be read or parsed is skipped.
\<close>

definition listSavedSessions :: "platform \<Rightarrow> recorder \<Rightarrow> (string \<times> jsval) list" where
  "listSavedSessions P st =
     concat (map (\<lambda>file.
        if endsWith file ''.json'' then
          (case loadSession P st (path_join P (sessionsDir st) file) of
             Inl e \<Rightarrow> []
           | Inr session \<Rightarrow> [(file, session)])
        else [])
      (readdir P (map fst (files st)) (sessionsDir st)))"

text \<open>
  The loop of \<^verbatim>\<open>findSessionById\<close> over the saved sessions. The whole loop is inside the
  \<^verbatim>\<open>try\<close>: when \<^verbatim>\<open>item.session.id\<close> throws (the file held \<^verbatim>\<open>null\<close>), the exception is caught
  and the search ends with \<^verbatim>\<open>null\<close>, whatever the files after it hold.
\<close>

fun find_saved :: "string \<Rightarrow> jsval list \<Rightarrow> jsval option" where
  "find_saved sessionId [] = None"
| "find_saved sessionId (session # rest) =
     (case member session ''id'' of
        Inl e \<Rightarrow> None
      | Inr i \<Rightarrow> if strict_eq i (JStr sessionId) then Some session
                 else find_saved sessionId rest)"

definition findSessionById :: "platform \<Rightarrow> recorder \<Rightarrow> string \<Rightarrow> jsval option" where
  "findSessionById P st sessionId = find_saved sessionId (map snd (listSavedSessions P st))"

text \<open>
  The first step of \<^verbatim>\<open>generatePlaywrightTest\<close>: the session named by a path or an
  identifier. A session of the recorder's own is the object of its typed record.
\<close>

definition resolveSession :: "platform \<Rightarrow> recorder \<Rightarrow> string \<Rightarrow> error + jsval" where
  "resolveSession P st sessionIdOrPath =
     (if str_includes sessionIdOrPath ''/'' \<or> str_includes sessionIdOrPath ''.json''
      then loadSession P st sessionIdOrPath
      else
        (case List.find (\<lambda>s. id_s s = sessionIdOrPath) (map snd (sessions st)) of
           Some s \<Rightarrow> Inr (js_of_Session s)
         | None \<Rightarrow>
             (case findSessionById P st sessionIdOrPath of
                Some session \<Rightarrow> Inr session
              | None \<Rightarrow> Inl (SessionNotFound sessionIdOrPath))))"

text \<open>
  \<^verbatim>\<open>session.actions.filter(a => a.tool !== 'browser_create_instance')\<close>: only an array has
  the method, and the callback reads \<^verbatim>\<open>a.tool\<close> on every element.
\<close>

fun filter_actions :: "jsval list \<Rightarrow> error + jsval list" where
  "filter_actions [] = Inr []"
| "filter_actions (a # as) =
     thenE (member a ''tool'') (\<lambda>t.
     thenE (filter_actions as) (\<lambda>rest.
       Inr (if strict_eq t (JStr ''browser_create_instance'') then rest else a # rest)))"

definition actionsToReplay :: "jsval \<Rightarrow> error + jsval list" where
  "actionsToReplay session =
     thenE (member session ''actions'') (\<lambda>acts.
       case acts of JArr xs \<Rightarrow> filter_actions xs | _ \<Rightarrow> Inl TypeError)"

text \<open>The loop over the actions to replay: a code that is \<^verbatim>\<open>null\<close> or empty adds no line.\<close>

fun test_lines :: "platform \<Rightarrow> jsval list \<Rightarrow> error + string list" where
  "test_lines P [] = Inr []"
| "test_lines P (a # as) =
     thenE (thenE (member a ''tool'') (to_string P)) (\<lambda>name.
     thenE (actionToPlaywrightTest P a) (\<lambda>code.
     thenE (test_lines P as) (\<lambda>rest.
       Inr ([''  // Action: '' @ name]
            @ (case code of None \<Rightarrow> [] | Some c \<Rightarrow> (if c = [] then [] else [c]))
            @ [''  await page.waitForTimeout(100);'', '''']
            @ rest))))"

definition liveness_lines :: "string list" where
  "liveness_lines =
     [''  // Verify page loaded without errors'',
      ''  const url = page.url();'',
      ''  expect(url).toBeTruthy();'']"

text \<open>
  \<^verbatim>\<open>options.testName || `Test session ${session.id}`\<close>: the session is read only when no
  name is given.
\<close>

definition test_name :: "platform \<Rightarrow> jsval \<Rightarrow> TestOptions \<Rightarrow> error + string" where
  "test_name P session options =
     (let named = (case testName options of None \<Rightarrow> [] | Some n \<Rightarrow> n)
      in if named = []
         then thenE (thenE (member session ''id'') (to_string P)) (\<lambda>i.
                Inr (''Test session '' @ i))
         else Inr named)"

text \<open>
  The block \<^verbatim>\<open>if (session.config?.viewport) { ... }\<close>: the lines it adds.
\<close>

definition viewport_lines :: "platform \<Rightarrow> jsval \<Rightarrow> error + string list" where
  "viewport_lines P session =
     thenE (member session ''config'') (\<lambda>cfg.
       let vp = opt_member cfg ''viewport'' in
       if truthy vp then
         thenE (thenE (member vp ''width'') (to_string P)) (\<lambda>w.
         thenE (thenE (member vp ''height'') (to_string P)) (\<lambda>h.
           Inr [''  // Set viewport'',
                ''  await page.setViewportSize({ width: '' @ w @ '', height: '' @ h @ '' });'',
                '''']))
       else Inr [])"

text \<open>
  The lines of \<^verbatim>\<open>generatePlaywrightTest\<close> before the actions (the declaration of the test
  and the viewport, if the session has one) and the lines of the expected-string check.
\<close>

definition test_head :: "platform \<Rightarrow> jsval \<Rightarrow> TestOptions \<Rightarrow> error + string list" where
  "test_head P session options =
     thenE (test_name P session options) (\<lambda>name.
       let ms = (case timeout options of
                   None \<Rightarrow> 30000
                 | Some t \<Rightarrow> (if t = 0 then 30000 else t))
       in thenE (viewport_lines P session) (\<lambda>vlines.
            Inr ([''import { test, expect } from '' @ sq ''@playwright/test'' @ '';'',
                  '''',
                  ''test('' @ sq name @ '', async ({ page }) => {'',
                  ''  test.setTimeout('' @ number_text P ms @ '');'',
                  '''']
                 @ vlines)))"

definition expected_lines :: "TestOptions \<Rightarrow> string list" where
  "expected_lines options =
     (case expectedString options of
        None \<Rightarrow> []
      | Some e \<Rightarrow>
          (if e = [] then []
           else [''  // Verify expected content'',
                 ''  const content = await page.content();'',
                 ''  expect(content).toContain('' @ sq (escape_quotes e) @ '');'']))"

text \<open>The source text for a session that has been found.\<close>

definition test_source :: "platform \<Rightarrow> jsval \<Rightarrow> TestOptions \<Rightarrow> error + string" where
  "test_source P session options =
     thenE (test_head P session options) (\<lambda>head.
     thenE (actionsToReplay session) (\<lambda>acts.
     thenE (test_lines P acts) (\<lambda>body.
       Inr (join [newline]
              (head @ body @ expected_lines options @ liveness_lines @ [''});''])))))"

definition generatePlaywrightTest ::
  "platform \<Rightarrow> recorder \<Rightarrow> string \<Rightarrow> TestOptions \<Rightarrow> error + string" where
  "generatePlaywrightTest P st sessionIdOrPath options =
     thenE (resolveSession P st sessionIdOrPath) (\<lambda>session. test_source P session options)"

section \<open>Basic replay\<close>

text \<open>
  The collaborators of the replay engine: the instance pool's \<^verbatim>\<open>createInstance\<close> and the
  tool surface's \<^verbatim>\<open>executeTools\<close>, acting on a world \<open>'w\<close> of their own. \<open>Inl\<close> is an
  exception they throw, as the text a template literal renders it.
\<close>

record ToolResult =
  t_success :: bool
  t_data :: jsval
  t_error :: "string option"

record CreateResult =
  cr_success :: bool
  cr_instanceId :: string
  cr_error :: "string option"

record 'w collaborators =
  createInstance :: "StartConfig \<Rightarrow> 'w \<Rightarrow> (string + CreateResult) \<times> 'w"
  executeTools :: "string \<Rightarrow> jsval \<Rightarrow> 'w \<Rightarrow> (string + ToolResult) \<times> 'w"

record ReplayResult =
  r_success :: bool
  r_instanceId :: "string option"
  r_errors :: "string list option"

definition text_of :: "string option \<Rightarrow> string" where
  "text_of x = (case x of None \<Rightarrow> ''undefined'' | Some s \<Rightarrow> s)"

text \<open>
  The loop of \<^verbatim>\<open>replaySession\<close> over \<^verbatim>\<open>sessionData.actions\<close>, with the errors collected so
  far. The pause between two actions acts on no state of the model.
\<close>

fun replay_actions ::
  "'w collaborators \<Rightarrow> string \<Rightarrow> ActionRecord list \<Rightarrow> string list \<Rightarrow> 'w \<Rightarrow> string list \<times> 'w" where
  "replay_actions M iid [] errors w = (errors, w)"
| "replay_actions M iid (action # rest) errors w =
     (let params = JObj (AList.update ''instanceId'' (JStr iid) (spread (parameters action)))
      in case executeTools M (tool action) params w of
           (Inl exn, w') \<Rightarrow>
             replay_actions M iid rest
               (errors @ [''Action '' @ id_a action @ '' error: '' @ exn]) w'
         | (Inr res, w') \<Rightarrow>
             replay_actions M iid rest
               (if t_success res then errors
                else errors @ [''Action '' @ id_a action @ '' failed: '' @ text_of (t_error res)])
               w')"

datatype session_ref = ByValue Session | ByPath string

text \<open>
  The replay engine is modelled on the typed record. A document loaded from a path is
  read as one by its declared fields; the replay of a document that lacks them is left
  out of the model.
\<close>

definition as_Session :: "jsval \<Rightarrow> error + Session" where
  "as_Session v = (case Session_of_js v of None \<Rightarrow> Inl Unsupported | Some s \<Rightarrow> Inr s)"

definition replaySession ::
  "platform \<Rightarrow> recorder \<Rightarrow> 'w collaborators \<Rightarrow> session_ref \<Rightarrow> 'w \<Rightarrow> (error + ReplayResult) \<times> 'w" where
  "replaySession P st M session w =
     (case (case session of
             ByValue s \<Rightarrow> Inr s
           | ByPath p \<Rightarrow> thenE (loadSession P st p) as_Session) of
        Inl e \<Rightarrow> (Inl e, w)
      | Inr sessionData \<Rightarrow>
          (case createInstance M
                  \<lparr>c_browserType = browserType sessionData,
                   c_headless = (case config sessionData of None \<Rightarrow> None | Some c \<Rightarrow> headless c),
                   c_viewport = (case config sessionData of None \<Rightarrow> None | Some c \<Rightarrow> viewport c),
                   c_userAgent = (case config sessionData of None \<Rightarrow> None | Some c \<Rightarrow> userAgent c),
                   c_metadata = metadata_s sessionData\<rparr> w of
             (Inl exn, w1) \<Rightarrow>
               (Inr \<lparr>r_success = False, r_instanceId = None,
                     r_errors = Some [''Replay failed: '' @ exn]\<rparr>, w1)
           | (Inr createResult, w1) \<Rightarrow>
               if \<not> cr_success createResult then
                 (Inr \<lparr>r_success = False, r_instanceId = None,
                       r_errors = Some [''Failed to create instance: ''
                                        @ text_of (cr_error createResult)]\<rparr>, w1)
               else
                 (case replay_actions M (cr_instanceId createResult) (actions sessionData) [] w1 of
                    (errors, w2) \<Rightarrow>
                      (Inr \<lparr>r_success = (errors = []),
                            r_instanceId = Some (cr_instanceId createResult),
                            r_errors = (if errors = [] then None else Some errors)\<rparr>, w2))))"

text \<open>A tool surface that succeeds at every call and keeps the list of the calls made.\<close>

definition logging :: "string \<Rightarrow> ((string \<times> jsval) list) collaborators" where
  "logging new_iid =
     \<lparr>createInstance = (\<lambda>cfg w.
          (Inr \<lparr>cr_success = True, cr_instanceId = new_iid, cr_error = None\<rparr>, w)),
      executeTools = (\<lambda>name params w.
          (Inr \<lparr>t_success = True, t_data = JUndefined, t_error = None\<rparr>, w @ [(name, params)]))\<rparr>"

section \<open>The sanitizer on a store of objects\<close>

text \<open>
  The definitions above compute the value a function returns. Whether the caller's own
  objects are written to depends on which objects are shared, so the two sanitizers are
  given a second time on an explicit store: a value is a primitive or the address of a
  cell, a cell is a plain object or an array, \<^verbatim>\<open>{ ...v }\<close> allocates a new cell and an
  assignment \<^verbatim>\<open>o.k = v\<close> writes to the cell \<open>o\<close> points to.
\<close>

datatype hval = HUndefined | HNull | HBool bool | HNum int | HStr string | HRef nat

datatype cell = Obj "(string \<times> hval) list" | Arr "hval list"

type_synonym heap = "cell list"

fun htruthy :: "hval \<Rightarrow> bool" where
  "htruthy HUndefined = False"
| "htruthy HNull = False"
| "htruthy (HBool b) = b"
| "htruthy (HNum n) = (n \<noteq> 0)"
| "htruthy (HStr s) = (s \<noteq> [])"
| "htruthy (HRef a) = True"

fun hnullish :: "hval \<Rightarrow> bool" where
  "hnullish HUndefined = True"
| "hnullish HNull = True"
| "hnullish v = False"

definition cell_at :: "heap \<Rightarrow> nat \<Rightarrow> cell" where
  "cell_at h a = (if a < length h then h ! a else Obj [])"

definition hindex_props :: "hval list \<Rightarrow> (string \<times> hval) list" where
  "hindex_props xs = zip (map string_of_nat [0..<length xs]) xs"

fun hspread :: "heap \<Rightarrow> hval \<Rightarrow> (string \<times> hval) list" where
  "hspread h (HRef a) = (case cell_at h a of Obj kvs \<Rightarrow> kvs | Arr xs \<Rightarrow> hindex_props xs)"
| "hspread h (HStr s) = hindex_props (map (\<lambda>c. HStr [c]) s)"
| "hspread h v = []"

fun hreadable_props :: "heap \<Rightarrow> hval \<Rightarrow> (string \<times> hval) list" where
  "hreadable_props h (HRef a) =
     (case cell_at h a of
        Obj kvs \<Rightarrow> kvs
      | Arr xs \<Rightarrow> (''length'', HNum (int (length xs))) # hindex_props xs)"
| "hreadable_props h (HStr s) =
     (''length'', HNum (int (length s))) # hindex_props (map (\<lambda>c. HStr [c]) s)"
| "hreadable_props h v = []"

definition hown :: "(string \<times> hval) list \<Rightarrow> string \<Rightarrow> hval" where
  "hown kvs k = (case map_of kvs k of None \<Rightarrow> HUndefined | Some v \<Rightarrow> v)"

definition alloc :: "heap \<Rightarrow> cell \<Rightarrow> nat \<times> heap" where
  "alloc h c = (length h, h @ [c])"

text \<open>\<^verbatim>\<open>o.k = v\<close> for the plain object at address \<open>a\<close>.\<close>

definition assign :: "heap \<Rightarrow> nat \<Rightarrow> string \<Rightarrow> hval \<Rightarrow> heap" where
  "assign h a k v =
     (case cell_at h a of
        Obj kvs \<Rightarrow> h[a := Obj (AList.update k v kvs)]
      | Arr xs \<Rightarrow> h)"

fun hto_number :: "hval \<Rightarrow> error + num" where
  "hto_number HUndefined = Inr NaN"
| "hto_number HNull = Inr (Num 0)"
| "hto_number (HBool b) = Inr (Num (if b then 1 else 0))"
| "hto_number (HNum n) = Inr (Num n)"
| "hto_number v = Inl Unsupported"

definition hredact_field :: "nat \<Rightarrow> heap \<Rightarrow> string \<Rightarrow> heap" where
  "hredact_field a h field =
     (if htruthy (hown (hreadable_props h (HRef a)) field)
      then assign h a field (HStr REDACTED) else h)"

definition sanitizeParameters_h :: "heap \<Rightarrow> hval \<Rightarrow> hval \<times> heap" where
  "sanitizeParameters_h h params =
     (case alloc h (Obj (hspread h params)) of
        (sanitized, h1) \<Rightarrow>
          (let h2 = foldl (hredact_field sanitized) h1 sensitiveFields;
               h3 = (if htruthy (hown (hreadable_props h2 (HRef sanitized)) ''screenshot'')
                     then assign h2 sanitized ''screenshot'' (HStr SCREENSHOT_DATA) else h2)
           in (HRef sanitized, h3)))"

text \<open>
  One truncation statement of \<^verbatim>\<open>sanitizeResult\<close> for the copy at address \<open>a\<close>:
  \<^verbatim>\<open>sanitized.data\<close> is read from the copy, and the assignment writes to the object
  \<^verbatim>\<open>sanitized.data\<close> points to. The outcome is the exception thrown, if any.
\<close>

definition htruncate_field :: "nat \<Rightarrow> string \<Rightarrow> heap \<Rightarrow> error option \<times> heap" where
  "htruncate_field a f h =
     (let d = hown (hreadable_props h (HRef a)) ''data'';
          v = (if hnullish d then HUndefined else hown (hreadable_props h d) f)
      in if \<not> htruthy v then (None, h)
         else case hto_number (hown (hreadable_props h v) ''length'') of
                Inl e \<Rightarrow> (Some e, h)
              | Inr len \<Rightarrow>
                  if \<not> num_gt len 1000 then (None, h)
                  else (case (v, d) of
                          (HStr s, HRef da) \<Rightarrow>
                            (None, assign h da f (HStr (take 1000 s @ TRUNCATED)))
                        | _ \<Rightarrow> (Some TypeError, h)))"

definition hreplace_screenshot :: "nat \<Rightarrow> heap \<Rightarrow> heap" where
  "hreplace_screenshot a h =
     (let d = hown (hreadable_props h (HRef a)) ''data'';
          v = (if hnullish d then HUndefined else hown (hreadable_props h d) ''screenshot'')
      in if htruthy v
         then (case d of HRef da \<Rightarrow> assign h da ''screenshot'' (HStr SCREENSHOT_DATA) | _ \<Rightarrow> h)
         else h)"

definition sanitizeResult_h :: "heap \<Rightarrow> hval \<Rightarrow> (error + hval) \<times> heap" where
  "sanitizeResult_h h res =
     (if htruthy res \<and> htruthy (hown (hreadable_props h res) ''data'') then
        (case alloc h (Obj (hspread h res)) of
           (sanitized, h1) \<Rightarrow>
             (case htruncate_field sanitized ''html'' h1 of
                (Some e, h2) \<Rightarrow> (Inl e, h2)
              | (None, h2) \<Rightarrow>
                  (case htruncate_field sanitized ''markdown'' (hreplace_screenshot sanitized h2) of
                     (Some e, h3) \<Rightarrow> (Inl e, h3)
                   | (None, h3) \<Rightarrow>
                       (case htruncate_field sanitized ''content'' h3 of
                          (Some e, h4) \<Rightarrow> (Inl e, h4)
                        | (None, h4) \<Rightarrow> (Inr (HRef sanitized), h4)))))
      else (Inr res, h))"

definition processResult_h :: "bool \<Rightarrow> heap \<Rightarrow> hval \<Rightarrow> string \<Rightarrow> (error + hval) \<times> heap" where
  "processResult_h captureFull h res tool_name =
     (if \<not> htruthy res then (Inr res, h)
      else if captureFull \<and> tool_name \<in> set dataCapturingTools then (Inr res, h)
      else sanitizeResult_h h res)"


text \<open>
  The value an observer reads off the store from \<open>v\<close>, following addresses down to the
  given depth.
\<close>

fun value_at :: "nat \<Rightarrow> heap \<Rightarrow> hval \<Rightarrow> jsval" where
  "value_at depth h HUndefined = JUndefined"
| "value_at depth h HNull = JNull"
| "value_at depth h (HBool b) = JBool b"
| "value_at depth h (HNum n) = JNum n"
| "value_at depth h (HStr s) = JStr s"
| "value_at 0 h (HRef a) = JUndefined"
| "value_at (Suc depth) h (HRef a) =
     (case cell_at h a of
        Obj kvs \<Rightarrow> JObj (map (\<lambda>kv. (fst kv, value_at depth h (snd kv))) kvs)
      | Arr xs \<Rightarrow> JArr (map (value_at depth h) xs))"

section \<open>JSON\<close>

text \<open>
  The values that survive \<^verbatim>\<open>JSON.parse(JSON.stringify(v))\<close>: no \<^verbatim>\<open>undefined\<close> anywhere, and
  objects whose keys are distinct.
\<close>

fun json_value :: "jsval \<Rightarrow> bool"
  and json_values :: "jsval list \<Rightarrow> bool"
  and json_members :: "(string \<times> jsval) list \<Rightarrow> bool" where
  "json_value JUndefined = False"
| "json_value JNull = True"
| "json_value (JBool b) = True"
| "json_value (JNum n) = True"
| "json_value (JStr s) = True"
| "json_value (JArr xs) = json_values xs"
| "json_value (JObj kvs) = (distinct (map fst kvs) \<and> json_members kvs)"
| "json_values [] = True"
| "json_values (x # xs) = (json_value x \<and> json_values xs)"
| "json_members [] = True"
| "json_members (kv # kvs) = (json_value (snd kv) \<and> json_members kvs)"

text \<open>A field of type \<^verbatim>\<open>any\<close> that is absent or holds a JSON value.\<close>

definition storable :: "jsval \<Rightarrow> bool" where
  "storable v = (v = JUndefined \<or> json_value v)"

definition json_ActionRecord :: "ActionRecord \<Rightarrow> bool" where
  "json_ActionRecord a =
     (storable (parameters a) \<and> storable (result a) \<and> storable (metadata_a a)
      \<and> storable (pageData a))"

text \<open>A session whose fields are JSON-representable.\<close>

definition json_Session :: "Session \<Rightarrow> bool" where
  "json_Session s = (storable (metadata_s s) \<and> list_all json_ActionRecord (actions s))"

subsection \<open>A codec\<close>

text \<open>
  A printer and a parser of JSON text for the values of the model, to have a concrete
  \<open>platform\<close> in the examples. The text is compact (no white space); in a string, the
  double quote and the backslash are escaped and every other character stands for itself.
\<close>

definition dquote :: char where
  "dquote = CHR 0x22"

definition escape_char :: "char \<Rightarrow> string" where
  "escape_char c = (if c = dquote \<or> c = backslash then [backslash, c] else [c])"

definition quoted :: "string \<Rightarrow> string" where
  "quoted s = dquote # concat (map escape_char s) @ [dquote]"

fun print_json :: "jsval \<Rightarrow> string"
  and print_elements :: "jsval list \<Rightarrow> string"
  and print_members :: "(string \<times> jsval) list \<Rightarrow> string" where
  "print_json JUndefined = ''null''"
| "print_json JNull = ''null''"
| "print_json (JBool b) = (if b then ''true'' else ''false'')"
| "print_json (JNum n) = string_of_int n"
| "print_json (JStr s) = quoted s"
| "print_json (JArr []) = ''[]''"
| "print_json (JArr (x # xs)) = ''['' @ print_json x @ print_elements xs"
| "print_json (JObj []) = ''{}''"
| "print_json (JObj (kv # kvs)) =
     ''{'' @ quoted (fst kv) @ '':'' @ print_json (snd kv) @ print_members kvs"
| "print_elements [] = '']''"
| "print_elements (x # xs) = '','' @ print_json x @ print_elements xs"
| "print_members [] = ''}''"
| "print_members (kv # kvs) =
     '','' @ quoted (fst kv) @ '':'' @ print_json (snd kv) @ print_members kvs"

definition is_digit :: "char \<Rightarrow> bool" where
  "is_digit c = (c \<in> set ''0123456789'')"

definition digit_value :: "char \<Rightarrow> nat" where
  "digit_value c = length (takeWhile (\<lambda>d. d \<noteq> c) ''0123456789'')"

definition nat_of_digits :: "string \<Rightarrow> nat" where
  "nat_of_digits ds = foldl (\<lambda>n c. 10 * n + digit_value c) 0 ds"

definition parse_nat :: "string \<Rightarrow> (nat \<times> string) option" where
  "parse_nat s =
     (let ds = takeWhile is_digit s
      in if ds = [] then None else Some (nat_of_digits ds, dropWhile is_digit s))"

text \<open>The characters of a string up to its closing quote, and the text after the quote.\<close>

fun scan_string :: "string \<Rightarrow> (string \<times> string) option" where
  "scan_string [] = None"
| "scan_string [c] = (if c = dquote then Some ([], []) else None)"
| "scan_string (c # d # cs) =
     (if c = dquote then Some ([], d # cs)
      else if c = backslash then map_option (\<lambda>(s, r). (d # s, r)) (scan_string cs)
      else map_option (\<lambda>(s, r). (c # s, r)) (scan_string (d # cs)))"

definition expect :: "char \<Rightarrow> string \<Rightarrow> string option" where
  "expect c s = (case s of [] \<Rightarrow> None | d # r \<Rightarrow> (if d = c then Some r else None))"

definition expect_word :: "string \<Rightarrow> string \<Rightarrow> string option" where
  "expect_word w s = (if take (length w) s = w then Some (drop (length w) s) else None)"

text \<open>
  The parser, by recursive descent. Its first argument bounds the depth of the descent;
  \<open>parse_json\<close> gives it the length of the text, which is enough for every text.
\<close>

fun parse_value :: "nat \<Rightarrow> string \<Rightarrow> (jsval \<times> string) option"
  and parse_elements :: "nat \<Rightarrow> string \<Rightarrow> (jsval list \<times> string) option"
  and parse_members :: "nat \<Rightarrow> string \<Rightarrow> ((string \<times> jsval) list \<times> string) option" where
  "parse_value 0 s = None"
| "parse_value (Suc f) [] = None"
| "parse_value (Suc f) (c # cs) =
     (if c = CHR ''n'' then map_option (Pair JNull) (expect_word ''ull'' cs)
      else if c = CHR ''t'' then map_option (Pair (JBool True)) (expect_word ''rue'' cs)
      else if c = CHR ''f'' then map_option (Pair (JBool False)) (expect_word ''alse'' cs)
      else if c = dquote then map_option (\<lambda>(s, r). (JStr s, r)) (scan_string cs)
      else if c = CHR ''['' then
        (case expect CHR '']'' cs of
           Some r \<Rightarrow> Some (JArr [], r)
         | None \<Rightarrow>
             (case parse_value f cs of
                None \<Rightarrow> None
              | Some (x, r) \<Rightarrow> map_option (\<lambda>(xs, r'). (JArr (x # xs), r')) (parse_elements f r)))
      else if c = CHR ''{'' then
        (case expect CHR ''}'' cs of
           Some r \<Rightarrow> Some (JObj [], r)
         | None \<Rightarrow>
             (case expect dquote cs of
                None \<Rightarrow> None
              | Some r1 \<Rightarrow>
                  (case scan_string r1 of
                     None \<Rightarrow> None
                   | Some (k, r2) \<Rightarrow>
                       (case expect CHR '':'' r2 of
                          None \<Rightarrow> None
                        | Some r3 \<Rightarrow>
                            (case parse_value f r3 of
                               None \<Rightarrow> None
                             | Some (v, r4) \<Rightarrow>
                                 map_option (\<lambda>(kvs, r'). (JObj ((k, v) # kvs), r'))
                                   (parse_members f r4))))))
      else if c = CHR ''-'' then map_option (\<lambda>(n, r). (JNum (- int n), r)) (parse_nat cs)
      else map_option (\<lambda>(n, r). (JNum (int n), r)) (parse_nat (c # cs)))"
| "parse_elements 0 s = None"
| "parse_elements (Suc f) s =
     (case expect CHR '']'' s of
        Some r \<Rightarrow> Some ([], r)
      | None \<Rightarrow>
          (case expect CHR '','' s of
             None \<Rightarrow> None
           | Some r1 \<Rightarrow>
               (case parse_value f r1 of
                  None \<Rightarrow> None
                | Some (x, r2) \<Rightarrow> map_option (\<lambda>(xs, r'). (x # xs, r')) (parse_elements f r2))))"
| "parse_members 0 s = None"
| "parse_members (Suc f) s =
     (case expect CHR ''}'' s of
        Some r \<Rightarrow> Some ([], r)
      | None \<Rightarrow>
          (case expect CHR '','' s of
             None \<Rightarrow> None
           | Some r0 \<Rightarrow>
               (case expect dquote r0 of
                  None \<Rightarrow> None
                | Some r1 \<Rightarrow>
                    (case scan_string r1 of
                       None \<Rightarrow> None
                     | Some (k, r2) \<Rightarrow>
                         (case expect CHR '':'' r2 of
                            None \<Rightarrow> None
                          | Some r3 \<Rightarrow>
                              (case parse_value f r3 of
                                 None \<Rightarrow> None
                               | Some (v, r4) \<Rightarrow>
                                   map_option (\<lambda>(kvs, r'). ((k, v) # kvs, r'))
                                     (parse_members f r4)))))))"

definition parse_json :: "string \<Rightarrow> jsval option" where
  "parse_json s =
     (case parse_value (length s) s of
        Some (v, r) \<Rightarrow> (if r = [] then Some v else None)
      | None \<Rightarrow> None)"

section \<open>Example inputs\<close>

text \<open>
  Concrete inputs, for the theorems that evaluate the code. The example platform reads a
  text of decimal digits (and the empty text) as a number and no other text, joins a
  directory and a name with a slash, and lists under a directory the paths that are the
  directory, a slash and a name without one. Its \<open>numberToString\<close> stands in for the
  engine's; no example calls it.
\<close>

definition demo_number :: "string \<Rightarrow> num option" where
  "demo_number s =
     (if list_all is_digit s \<and> nat_of_digits s \<le> 2 ^ 53 then Some (Num (int (nat_of_digits s)))
      else None)"

definition names_under :: "string list \<Rightarrow> string \<Rightarrow> string list" where
  "names_under paths dir =
     map (\<lambda>p. drop (Suc (length dir)) p)
       (filter (\<lambda>p. take (Suc (length dir)) p = dir @ ''/''
                     \<and> CHR ''/'' \<notin> set (drop (Suc (length dir)) p))
          paths)"

definition demo_platform :: platform where
  "demo_platform =
     \<lparr>uuidv4 = (\<lambda>n. ''id-'' @ string_of_nat n),
      toISOString = (\<lambda>t. ''T'' @ string_of_nat t),
      stringify = print_json,
      parse = parse_json,
      numberToString = string_of_int,
      stringToNumber = demo_number,
      path_join = (\<lambda>dir name. dir @ ''/'' @ name),
      readdir = names_under\<rparr>"

definition demo_session :: Session where
  "demo_session =
     \<lparr>id_s = ''s1'', instanceId = ''i1'', browserType = ''chromium'', startedAt = ''T0'',
      endedAt = None, actions = [], metadata_s = JUndefined, config = None\<rparr>"

definition demo_recorder :: "bool \<Rightarrow> recorder" where
  "demo_recorder full =
     \<lparr>sessions = [(''i1'', demo_session)], sessionsDir = ''sessions'', autoSave = False,
      recordingEnabled = True, captureFullPageData = full, files = [], clock = 0, uuids = 0,
      timers = []\<rparr>"

definition demo_action :: "string \<Rightarrow> jsval \<Rightarrow> jsval \<Rightarrow> ActionInput" where
  "demo_action name params res =
     \<lparr>in_tool = name, in_parameters = params, in_result = res, in_error = None,
      in_metadata = JUndefined, in_pageData = JUndefined\<rparr>"

definition demo_record :: "string \<Rightarrow> jsval \<Rightarrow> ActionRecord" where
  "demo_record name params =
     \<lparr>id_a = ''a1'', timestamp = ''T0'', tool = name, parameters = params,
      result = JUndefined, error = None, duration = None, metadata_a = JUndefined,
      pageData = JUndefined\<rparr>"

section \<open>Notions used in the statements\<close>

text \<open>The actions recorded for an instance: \<^verbatim>\<open>getSession(instanceId)?.actions\<close>, empty without a session.\<close>

definition recorded_actions :: "recorder \<Rightarrow> string \<Rightarrow> ActionRecord list" where
  "recorded_actions st iid = (case map_of (sessions st) iid of None \<Rightarrow> [] | Some s \<Rightarrow> actions s)"



text \<open>A text after which a number ends: it is empty or starts with something else than a digit.\<close>

definition delimited :: "string \<Rightarrow> bool" where
  "delimited rest = (case rest of [] \<Rightarrow> True | c # cs \<Rightarrow> \<not> is_digit c)"

section \<open>Properties of the sanitizer\<close>

lemma own_update: "own (AList.update k v al) k' = (if k' = k then v else own al k')"
  by (simp add: own_def update_conv')

lemma own_redact_field:
  "own (redact_field al f) k = (if k = f \<and> truthy (own al f) then JStr REDACTED else own al k)"
  by (simp add: redact_field_def own_update)

lemma REDACTED_truthy: "truthy (JStr REDACTED)"
  by (simp add: REDACTED_def)

lemma own_foldl_redact:
  "own (foldl redact_field al fs) k =
     (if k \<in> set fs \<and> truthy (own al k) then JStr REDACTED else own al k)"
  by (induction fs arbitrary: al) (auto simp: own_redact_field REDACTED_truthy)

lemma screenshot_not_sensitive: "''screenshot'' \<notin> set sensitiveFields"
  by (simp add: sensitiveFields_def)

text \<open>What a key of the sanitized parameters holds, for every key.\<close>

lemma member_sanitizeParameters:
  "member (sanitizeParameters params) k = Inr
     (if k \<in> set sensitiveFields \<and> truthy (own (spread params) k) then JStr REDACTED
      else if k = ''screenshot'' \<and> truthy (own (spread params) k) then JStr SCREENSHOT_DATA
      else own (spread params) k)"
  using screenshot_not_sensitive
  by (auto simp: sanitizeParameters_def member_def Let_def own_update own_foldl_redact)

section \<open>What \<open>recordAction\<close> stores\<close>

lemma auto_save_sessions: "auto_save P st iid = (r, st') \<Longrightarrow> sessions st' = sessions st"
  by (auto simp: auto_save_def saveSession_def Let_def
      split: if_splits option.splits sum.splits prod.splits)

text \<open>
  Whenever \<open>recordAction\<close> appends a record \<open>r\<close>, recording is enabled and \<open>r\<close> holds the
  sanitized parameters and the processed result of the action.
\<close>

lemma recordAction_appended:
  assumes run: "recordAction P st iid act = (out, st')"
    and app: "recorded_actions st' iid = recorded_actions st iid @ [r]"
  shows "recordingEnabled st \<and> tool r = in_tool act
         \<and> parameters r = sanitizeParameters (in_parameters act)
         \<and> stored_result P st act = Inr (result r)"
proof (cases "recordingEnabled st \<and> map_of (sessions st) iid \<noteq> None")
  case False
  with run have "st' = st"
    by (cases "recordingEnabled st") (auto simp: recordAction_def)
  with app show ?thesis by simp
next
  case True
  then obtain s where s: "map_of (sessions st) iid = Some s" and en: "recordingEnabled st"
    by auto
  show ?thesis
  proof (cases "stored_result P st act")
    case (Inl e)
    with run s en have "sessions st' = sessions st"
      by (auto simp: recordAction_def Let_def)
    with app show ?thesis
      by (simp add: recorded_actions_def)
  next
    case (Inr res)
    let ?r = "\<lparr>id_a = uuidv4 P (uuids st), timestamp = toISOString P (clock st),
               tool = in_tool act, parameters = sanitizeParameters (in_parameters act),
               result = res, error = in_error act,
               duration = Some (int (clock st) - int (clock st)),
               metadata_a = in_metadata act, pageData = in_pageData act\<rparr>"
    let ?st2 = "st\<lparr>uuids := Suc (uuids st),
                   sessions := AList.update iid (s\<lparr>actions := actions s @ [?r]\<rparr>) (sessions st)\<rparr>"
    from run s en Inr have "auto_save P ?st2 iid = (out, st')"
      by (simp add: recordAction_def Let_def)
    then have "sessions st' = sessions ?st2"
      by (rule auto_save_sessions)
    then have "recorded_actions st' iid = recorded_actions st iid @ [?r]"
      using s by (simp add: recorded_actions_def update_conv')
    with app have "r = ?r" by simp
    with Inr en show ?thesis by simp
  qed
qed

text \<open>The run of \<open>recordAction\<close> on the example recorder, for any tool, parameters and result.\<close>

lemma demo_run:
  "recorded_actions
     (snd (recordAction demo_platform (demo_recorder full) ''i1'' (demo_action t p res))) ''i1''
   = (case stored_result demo_platform (demo_recorder full) (demo_action t p res) of
        Inl e \<Rightarrow> []
      | Inr v \<Rightarrow>
          [\<lparr>id_a = ''id-0'', timestamp = ''T0'', tool = t, parameters = sanitizeParameters p,
            result = v, error = None, duration = Some 0, metadata_a = JUndefined,
            pageData = JUndefined\<rparr>])"
  by (simp add: recordAction_def demo_recorder_def demo_action_def demo_session_def
      demo_platform_def auto_save_def recorded_actions_def Let_def string_of_nat.simps
      digit_char_def split: sum.splits)

lemma demo_no_result: "stored_result P st (demo_action t p JUndefined) = Inr JUndefined"
  by (simp add: stored_result_def demo_action_def)

lemma demo_before: "recorded_actions (demo_recorder full) ''i1'' = []"
  by (simp add: recorded_actions_def demo_recorder_def demo_session_def)

text \<open>
  C3 (as amended). What is stored under a denylisted key depends on the truthiness of
  the original value and on nothing else: a truthy value is stored as the redaction
  marker, a falsy one (the empty string, \<^verbatim>\<open>0\<close>, \<^verbatim>\<open>false\<close>, \<^verbatim>\<open>null\<close>, \<^verbatim>\<open>undefined\<close>) is stored as
  it is. The statement holds for every recorder state, and so for both values of
  \<open>captureFullPageData\<close>.
\<close>

theorem redaction_guarded_by_truthiness:
  assumes "recordAction P st iid act = (out, st')"
    and "recorded_actions st' iid = recorded_actions st iid @ [r]"
    and "field \<in> set sensitiveFields"
  shows "member (parameters r) field
         = Inr (if truthy (own (spread (in_parameters act)) field) then JStr REDACTED
                else own (spread (in_parameters act)) field)"
  using recordAction_appended [OF assms(1,2)] assms(3)
  by (simp add: member_sanitizeParameters)

theorem redaction_guarded_by_truthiness_witness:
  "recorded_actions
     (snd (recordAction demo_platform (demo_recorder False) ''i1''
        (demo_action ''browser_fill''
           (JObj [(''password'', JStr ''hunter2''), (''token'', JStr '''')]) JUndefined))) ''i1''
   = recorded_actions (demo_recorder False) ''i1''
     @ [\<lparr>id_a = ''id-0'', timestamp = ''T0'', tool = ''browser_fill'',
         parameters = sanitizeParameters
           (JObj [(''password'', JStr ''hunter2''), (''token'', JStr '''')]),
         result = JUndefined, error = None, duration = Some 0, metadata_a = JUndefined,
         pageData = JUndefined\<rparr>]
   \<and> ''password'' \<in> set sensitiveFields
   \<and> ''token'' \<in> set sensitiveFields
   \<and> member (sanitizeParameters
         (JObj [(''password'', JStr ''hunter2''), (''token'', JStr '''')])) ''password''
       = Inr (JStr REDACTED)
   \<and> member (sanitizeParameters
         (JObj [(''password'', JStr ''hunter2''), (''token'', JStr '''')])) ''token''
       = Inr (JStr '''')"
proof -
  let ?p = "JObj [(''password'', JStr ''hunter2''), (''token'', JStr '''')]"
  let ?act = "demo_action ''browser_fill'' ?p JUndefined"
  let ?run = "recordAction demo_platform (demo_recorder False) ''i1'' ?act"
  let ?r = "\<lparr>id_a = ''id-0'', timestamp = ''T0'', tool = ''browser_fill'',
         parameters = sanitizeParameters ?p,
         result = JUndefined, error = None, duration = Some 0, metadata_a = JUndefined,
         pageData = JUndefined\<rparr>"
  have h1: "?run = (fst ?run, snd ?run)" by simp
  have h2: "recorded_actions (snd ?run) ''i1'' = recorded_actions (demo_recorder False) ''i1'' @ [?r]"
    by (simp add: demo_run demo_before demo_no_result)
  have h3: "''password'' \<in> set sensitiveFields"
    by (simp add: sensitiveFields_def)
  have h4: "''token'' \<in> set sensitiveFields"
    by (simp add: sensitiveFields_def)
  from redaction_guarded_by_truthiness [OF h1 h2 h3]
    redaction_guarded_by_truthiness [OF h1 h2 h4] h2 h3 h4
  show ?thesis
    by (simp add: demo_action_def own_def)
qed

text \<open>
  C3 as stated fails: a denylisted key whose value is falsy (here the empty string) is
  stored with its original value.
\<close>

theorem redaction_skips_falsy_counterexample:
  "map (\<lambda>r. member (parameters r) ''password'')
     (recorded_actions
        (snd (recordAction demo_platform (demo_recorder True) ''i1''
           (demo_action ''browser_fill'' (JObj [(''password'', JStr '''')]) JUndefined))) ''i1'')
   = [Inr (JStr '''')]"
  by (simp add: demo_run demo_no_result member_sanitizeParameters own_def sensitiveFields_def)

text \<open>
  C10 (as amended). Redaction looks at the top-level keys only. Under every key that is
  not denylisted, the stored record holds the value of the input, identical in all its
  nested content, a denylisted key nested in it included; the one exception is the key
  \<^verbatim>\<open>screenshot\<close>, whose truthy value (every object and array is truthy) is stored as the
  placeholder.
\<close>

theorem nested_values_stored_unchanged:
  assumes "recordAction P st iid act = (out, st')"
    and "recorded_actions st' iid = recorded_actions st iid @ [r]"
    and "k \<notin> set sensitiveFields"
  shows "member (parameters r) k
         = Inr (if k = ''screenshot'' \<and> truthy (own (spread (in_parameters act)) k)
                then JStr SCREENSHOT_DATA
                else own (spread (in_parameters act)) k)"
  using recordAction_appended [OF assms(1,2)] assms(3)
  by (simp add: member_sanitizeParameters)

theorem nested_values_stored_unchanged_witness:
  "recorded_actions
     (snd (recordAction demo_platform (demo_recorder True) ''i1''
        (demo_action ''browser_evaluate''
           (JObj [(''credentials'', JObj [(''password'', JStr ''hunter2'')]),
                  (''screenshot'', JObj [(''token'', JStr ''abc'')])]) JUndefined))) ''i1''
   = recorded_actions (demo_recorder True) ''i1''
     @ [\<lparr>id_a = ''id-0'', timestamp = ''T0'', tool = ''browser_evaluate'',
         parameters = sanitizeParameters
           (JObj [(''credentials'', JObj [(''password'', JStr ''hunter2'')]),
                  (''screenshot'', JObj [(''token'', JStr ''abc'')])]),
         result = JUndefined, error = None, duration = Some 0, metadata_a = JUndefined,
         pageData = JUndefined\<rparr>]
   \<and> ''credentials'' \<notin> set sensitiveFields
   \<and> ''screenshot'' \<notin> set sensitiveFields
   \<and> member (sanitizeParameters
        (JObj [(''credentials'', JObj [(''password'', JStr ''hunter2'')]),
               (''screenshot'', JObj [(''token'', JStr ''abc'')])])) ''credentials''
       = Inr (JObj [(''password'', JStr ''hunter2'')])
   \<and> member (sanitizeParameters
        (JObj [(''credentials'', JObj [(''password'', JStr ''hunter2'')]),
               (''screenshot'', JObj [(''token'', JStr ''abc'')])])) ''screenshot''
       = Inr (JStr SCREENSHOT_DATA)"
proof -
  let ?p = "JObj [(''credentials'', JObj [(''password'', JStr ''hunter2'')]),
                  (''screenshot'', JObj [(''token'', JStr ''abc'')])]"
  let ?act = "demo_action ''browser_evaluate'' ?p JUndefined"
  let ?run = "recordAction demo_platform (demo_recorder True) ''i1'' ?act"
  let ?r = "\<lparr>id_a = ''id-0'', timestamp = ''T0'', tool = ''browser_evaluate'',
         parameters = sanitizeParameters ?p,
         result = JUndefined, error = None, duration = Some 0, metadata_a = JUndefined,
         pageData = JUndefined\<rparr>"
  have h1: "?run = (fst ?run, snd ?run)" by simp
  have h2: "recorded_actions (snd ?run) ''i1'' = recorded_actions (demo_recorder True) ''i1'' @ [?r]"
    by (simp add: demo_run demo_before demo_no_result)
  have h3: "''credentials'' \<notin> set sensitiveFields"
    by (simp add: sensitiveFields_def)
  have h4: "''screenshot'' \<notin> set sensitiveFields"
    by (simp add: sensitiveFields_def)
  from nested_values_stored_unchanged [OF h1 h2 h3]
    nested_values_stored_unchanged [OF h1 h2 h4] h2 h3 h4
  show ?thesis
    by (simp add: demo_action_def own_def)
qed

text \<open>
  C10 as stated fails for the parameter \<^verbatim>\<open>screenshot\<close>: an object under that key, with a
  denylisted key inside, is replaced by the placeholder, so the stored record does not
  hold the nested value.
\<close>

theorem nested_under_screenshot_counterexample:
  "map (\<lambda>r. member (parameters r) ''screenshot'')
     (recorded_actions
        (snd (recordAction demo_platform (demo_recorder True) ''i1''
           (demo_action ''browser_evaluate''
              (JObj [(''screenshot'', JObj [(''token'', JStr ''abc'')])]) JUndefined))) ''i1'')
   = [Inr (JStr ''[SCREENSHOT_DATA]'')]"
  by (simp add: demo_run demo_no_result member_sanitizeParameters own_def sensitiveFields_def
      SCREENSHOT_DATA_def)

section \<open>Recording switched off\<close>

text \<open>
  C8. With the recording toggle off, \<open>startSession\<close> returns the empty identifier, and
  \<open>startSession\<close>, \<open>recordAction\<close> and \<open>endSession\<close> all return normally and leave the
  recorder as it was: no session in the map, no record appended, no file written, no
  timer set. The recorder after each call is the recorder before it, so the toggle is
  still off at the next call and the statement applies to it again.
\<close>

theorem disabled_recording_is_noop:
  assumes "\<not> recordingEnabled st"
  shows "startSession P st iid cfg = (Inr '''', st)
         \<and> recordAction P st iid act = (Inr (), st)
         \<and> endSession P st iid = (Inr (), st)"
  using assms by (simp add: startSession_def recordAction_def endSession_def)

theorem disabled_recording_is_noop_witness:
  "\<not> recordingEnabled ((demo_recorder True)\<lparr>recordingEnabled := False\<rparr>)
   \<and> startSession demo_platform ((demo_recorder True)\<lparr>recordingEnabled := False\<rparr>) ''i2''
        \<lparr>c_browserType = ''chromium'', c_headless = None, c_viewport = None,
         c_userAgent = None, c_metadata = JUndefined\<rparr>
       = (Inr '''', (demo_recorder True)\<lparr>recordingEnabled := False\<rparr>)
   \<and> recordAction demo_platform ((demo_recorder True)\<lparr>recordingEnabled := False\<rparr>) ''i2''
        (demo_action ''browser_click'' (JObj []) JUndefined)
       = (Inr (), (demo_recorder True)\<lparr>recordingEnabled := False\<rparr>)
   \<and> endSession demo_platform ((demo_recorder True)\<lparr>recordingEnabled := False\<rparr>) ''i2''
       = (Inr (), (demo_recorder True)\<lparr>recordingEnabled := False\<rparr>)"
proof -
  have h: "\<not> recordingEnabled ((demo_recorder True)\<lparr>recordingEnabled := False\<rparr>)"
    by simp
  from disabled_recording_is_noop [OF h] h show ?thesis
    by simp
qed

section \<open>The capture policy\<close>

lemma own_hd: "own ((k, v) # kvs) k = v"
  by (simp add: own_def)









section \<open>The comparator\<close>

text \<open>
  In deep mode, whenever the comparator returns, \<open>match\<close> says that the two URLs are
  strictly equal and nothing else: neither the title nor the content length enters it.
\<close>

lemma deep_match_is_url_equality:
  assumes "compareResults P original replay t True = Inr c"
  shows "match c = strict_eq (opt_member (opt_member original ''data'') ''url'')
                             (opt_member (opt_member replay ''data'') ''url'')"
  using assms by (auto simp: compareResults_def Let_def split: sum.splits)

text \<open>The scenario of the specification within the tolerance: 500 against 520 characters.\<close>

lemma compare_small_drift:
  "compareResults P
     (JObj [(''success'', JBool True), (''data'', JObj [(''content'', JStr (replicate 500 CHR ''X''))])])
     (JObj [(''success'', JBool True), (''data'', JObj [(''content'', JStr (replicate 520 CHR ''X''))])])
     ''browser_get_page_info'' True
   = Inr \<lparr>match = True, differences = JUndefined\<rparr>"
  by (simp add: compareResults_def content_length_entry_def opt_member_def own_def Let_def)

text \<open>
  C1, at the input where the code departs from it: 500 against 700 characters, a growth of
  40 percent. The comparator records the \<^verbatim>\<open>contentLength\<close> entry and still reports a match.
\<close>

theorem compare_large_drift_still_matches:
  "compareResults P
     (JObj [(''success'', JBool True), (''data'', JObj [(''content'', JStr (replicate 500 CHR ''X''))])])
     (JObj [(''success'', JBool True), (''data'', JObj [(''content'', JStr (replicate 700 CHR ''X''))])])
     ''browser_get_page_info'' True
   = Inr \<lparr>match = True,
           differences = JObj [(''contentLength'',
             JObj [(''original'', JNum 500), (''replay'', JNum 700), (''difference'', JNum 200)])]\<rparr>"
  by (simp add: compareResults_def content_length_entry_def opt_member_def own_def Let_def)

section \<open>Basic replay\<close>

text \<open>
  On the logging tool surface, the loop of \<open>replaySession\<close> issues one call per recorded
  action, in the recorded order, whatever the tool; the parameters are those recorded with
  the identity of the new instance under \<^verbatim>\<open>instanceId\<close>.
\<close>

lemma replay_actions_calls:
  "snd (replay_actions (logging n) iid acts errs w)
   = w @ map (\<lambda>a. (tool a, JObj (AList.update ''instanceId'' (JStr iid) (spread (parameters a))))) acts"
  by (induction acts arbitrary: errs w) (simp_all add: logging_def Let_def)

text \<open>
  C2, at the input where the code departs from it: a session whose first action is the
  recorded creation of the instance. Basic replay issues it again, before the navigation.
\<close>

theorem replaySession_reissues_create_instance:
  "snd (replaySession demo_platform (demo_recorder True) (logging ''i2'')
          (ByValue (demo_session\<lparr>actions :=
             [demo_record ''browser_create_instance'' (JObj [(''browserType'', JStr ''chromium'')]),
              demo_record ''browser_navigate''
                (JObj [(''instanceId'', JStr ''i1''), (''url'', JStr ''https://example.com'')])]\<rparr>))
          [])
   = [(''browser_create_instance'',
         JObj [(''browserType'', JStr ''chromium''), (''instanceId'', JStr ''i2'')]),
      (''browser_navigate'',
         JObj [(''instanceId'', JStr ''i2''), (''url'', JStr ''https://example.com'')])]"
  by (simp add: replaySession_def logging_def demo_session_def demo_record_def Let_def)

section \<open>Quotes in generated source\<close>

text \<open>The test generator escapes the quote in the text of a \<^verbatim>\<open>type\<close> action.\<close>

lemma test_generator_escapes_text:
  "actionToPlaywrightTest P
     (js_of_ActionRecord (demo_record ''browser_type''
        (JObj [(''selector'', JStr ''#name''), (''text'', JStr [CHR ''O'', quote_char, CHR ''B''])])))
   = Inr (Some (''  await page.type('' @ [quote_char] @ ''#name'' @ [quote_char] @ '', ''
                @ [quote_char] @ [CHR ''O'', backslash, quote_char, CHR ''B''] @ [quote_char]
                @ '');''))"
  by (simp add: actionToPlaywrightTest_def demo_record_def test_param_text_def test_param_def
      js_of_ActionRecord_def obj_def js_opt_def thenE_def member_def own_def sq_def
      escape_quotes_def quote_char_def backslash_def)

text \<open>
  C4, at the input where the code departs from it: the script exporter on a \<^verbatim>\<open>type\<close>
  action whose text is \<^verbatim>\<open>O'Brien\<close>. The quote goes into the statement as it is, between
  the quotes that delimit the literal.
\<close>

theorem script_exporter_leaves_quote_unescaped:
  "actionToPlaywrightCommand P
     (demo_record ''browser_type''
        (JObj [(''selector'', JStr ''#name''),
               (''text'', JStr (''O'' @ [quote_char] @ ''Brien''))]))
   = Inr (Some (''await page.type('' @ [quote_char] @ ''#name'' @ [quote_char] @ '', ''
                @ [quote_char] @ ''O'' @ [quote_char] @ ''Brien'' @ [quote_char] @ '');''))"
  by (simp add: actionToPlaywrightCommand_def demo_record_def param_text_def thenE_def member_def
      own_def sq_def)

section \<open>Sanitizing and the caller's objects\<close>

text \<open>
  C5, at the input where the code departs from it: a result object at address 0 whose
  \<^verbatim>\<open>data\<close> is the object at address 1, with 1001 characters of \<^verbatim>\<open>html\<close>, recorded for a
  tool outside the data-bearing set, in either capture mode. The processed result is a new
  object at address 2, but the truncated text is written to the object at address 1, which
  is the caller's.
\<close>

theorem sanitizeResult_writes_to_callers_data:
  "processResult_h full
     [Obj [(''success'', HBool True), (''data'', HRef 1)],
      Obj [(''html'', HStr (replicate 1001 CHR ''x''))]]
     (HRef 0) ''browser_click''
   = (Inr (HRef 2),
      [Obj [(''success'', HBool True), (''data'', HRef 1)],
       Obj [(''html'', HStr (replicate 1000 CHR ''x'' @ TRUNCATED))],
       Obj [(''success'', HBool True), (''data'', HRef 1)]])"
  by (simp add: processResult_h_def dataCapturingTools_def sanitizeResult_h_def alloc_def
      htruncate_field_def hreplace_screenshot_def assign_def cell_at_def hown_def Let_def)

text \<open>
  On that input the two descriptions of the sanitizer agree on the value returned, and
  the value the caller reads from its own result object before and after the call
  differs.
\<close>

lemma store_and_value_agree:
  "sanitizeResult P
     (value_at 2
        [Obj [(''success'', HBool True), (''data'', HRef 1)],
         Obj [(''html'', HStr (replicate 1001 CHR ''x''))]]
        (HRef 0))
   = Inr (value_at 2
        (snd (processResult_h False
                [Obj [(''success'', HBool True), (''data'', HRef 1)],
                 Obj [(''html'', HStr (replicate 1001 CHR ''x''))]]
                (HRef 0) ''browser_click''))
        (HRef 2))"
  by (simp add: processResult_h_def sanitizeResult_h_def alloc_def htruncate_field_def
      hreplace_screenshot_def assign_def cell_at_def hown_def Let_def sanitizeResult_def
      sanitize_data_def truncate_field_def replace_screenshot_def own_def numeral_2_eq_2)

lemma callers_result_changed:
  "value_at 2
     (snd (processResult_h False
             [Obj [(''success'', HBool True), (''data'', HRef 1)],
              Obj [(''html'', HStr (replicate 1001 CHR ''x''))]]
             (HRef 0) ''browser_click''))
     (HRef 0)
   = JObj [(''success'', JBool True),
           (''data'', JObj [(''html'', JStr (replicate 1000 CHR ''x'' @ TRUNCATED))])]"
  by (simp add: processResult_h_def sanitizeResult_h_def alloc_def htruncate_field_def
      hreplace_screenshot_def assign_def cell_at_def hown_def Let_def numeral_2_eq_2)

section \<open>The codec of the examples\<close>

text \<open>The parser reads back what the printer writes, for every JSON value.\<close>

lemma special_chars:
  "dquote \<noteq> backslash" "backslash \<noteq> dquote"
  "dquote \<noteq> CHR ''n''" "dquote \<noteq> CHR ''t''" "dquote \<noteq> CHR ''f''"
  "dquote \<noteq> CHR '']''" "dquote \<noteq> CHR ''}''" "dquote \<noteq> CHR ''[''"
  "dquote \<noteq> CHR ''{''" "dquote \<noteq> CHR ''-''" "dquote \<noteq> CHR '',''"
  "CHR ''['' \<noteq> dquote" "CHR ''{'' \<noteq> dquote" "CHR ''-'' \<noteq> dquote"
  by (simp_all add: dquote_def backslash_def)

lemma scan_string_quote: "scan_string (dquote # rest) = Some ([], rest)"
  by (cases rest) simp_all

lemma scan_string_escape:
  "scan_string (backslash # d # cs) = map_option (\<lambda>(s, r). (d # s, r)) (scan_string cs)"
  by (simp add: special_chars)

lemma scan_string_plain:
  "x \<noteq> [] \<Longrightarrow> c \<noteq> dquote \<Longrightarrow> c \<noteq> backslash \<Longrightarrow>
   scan_string (c # x) = map_option (\<lambda>(s, r). (c # s, r)) (scan_string x)"
  by (cases x) simp_all

lemma scan_string_escaped:
  "scan_string (concat (map escape_char s) @ dquote # rest) = Some (s, rest)"
proof (induction s)
  case Nil
  show ?case by (simp add: scan_string_quote)
next
  case (Cons c s)
  show ?case
  proof (cases "c = dquote \<or> c = backslash")
    case True
    then have "escape_char c = [backslash, c]"
      by (simp add: escape_char_def)
    then show ?thesis
      using Cons by (simp add: special_chars)
  next
    case False
    then have "escape_char c = [c]"
      by (simp add: escape_char_def)
    with False show ?thesis
      using Cons by (simp add: scan_string_plain)
  qed
qed

lemma digit_cases: "d < 10 \<Longrightarrow> d \<in> {0, 1, 2, 3, 4, 5, 6, 7, 8, 9::nat}"
  by auto

lemma digit_char_facts:
  assumes "d < 10"
  shows "is_digit (digit_char d)" and "digit_value (digit_char d) = d"
  using digit_cases [OF assms]
  by (auto simp: is_digit_def digit_value_def digit_char_def)

lemma string_of_nat_digits: "list_all is_digit (string_of_nat n) \<and> string_of_nat n \<noteq> []"
proof (induction n rule: string_of_nat.induct)
  case (1 n)
  show ?case
  proof (cases "n < 10")
    case True
    then show ?thesis
      by (simp add: string_of_nat.simps [of n] digit_char_facts)
  next
    case False
    with 1 show ?thesis
      by (simp add: string_of_nat.simps [of n] digit_char_facts)
  qed
qed

lemma nat_of_digits_snoc: "nat_of_digits (ds @ [c]) = 10 * nat_of_digits ds + digit_value c"
  by (simp add: nat_of_digits_def)

lemma nat_of_digits_string_of_nat: "nat_of_digits (string_of_nat n) = n"
proof (induction n rule: string_of_nat.induct)
  case (1 n)
  show ?case
  proof (cases "n < 10")
    case True
    then show ?thesis
      by (simp add: string_of_nat.simps [of n] nat_of_digits_def digit_char_facts)
  next
    case False
    with 1 show ?thesis
      by (simp add: string_of_nat.simps [of n] nat_of_digits_snoc digit_char_facts)
  qed
qed

lemma parse_nat_string_of_nat:
  assumes "delimited rest"
  shows "parse_nat (string_of_nat n @ rest) = Some (n, rest)"
proof -
  have all: "\<forall>c \<in> set (string_of_nat n). is_digit c" and ne: "string_of_nat n \<noteq> []"
    using string_of_nat_digits [of n] by (simp_all add: list_all_iff)
  have stop: "takeWhile is_digit rest = []" and "dropWhile is_digit rest = rest"
    using assms by (cases rest; simp add: delimited_def)+
  with all have "takeWhile is_digit (string_of_nat n @ rest) = string_of_nat n"
    and "dropWhile is_digit (string_of_nat n @ rest) = rest"
    by (simp_all add: takeWhile_append2 dropWhile_append2)
  with ne show ?thesis
    by (simp add: parse_nat_def nat_of_digits_string_of_nat)
qed


lemma digit_not_special:
  assumes "is_digit c"
  shows "c \<noteq> CHR ''n''" "c \<noteq> CHR ''t''" "c \<noteq> CHR ''f''" "c \<noteq> dquote" "c \<noteq> CHR ''[''"
    "c \<noteq> CHR ''{''" "c \<noteq> CHR ''-''" "c \<noteq> CHR '']''" "c \<noteq> CHR ''}''"
  using assms by (auto simp: is_digit_def dquote_def)

lemma string_of_nat_Cons: "\<exists>c cs. string_of_nat n = c # cs \<and> is_digit c"
  using string_of_nat_digits [of n] by (cases "string_of_nat n") simp_all

lemma parse_null: "parse_value (Suc f) (''null'' @ rest) = Some (JNull, rest)"
  by (simp add: expect_word_def)

lemma parse_bool: "parse_value (Suc f) (print_json (JBool b) @ rest) = Some (JBool b, rest)"
  by (simp add: expect_word_def)

lemma parse_str: "parse_value (Suc f) (quoted s @ rest) = Some (JStr s, rest)"
  by (simp add: quoted_def special_chars scan_string_escaped)

lemma parse_num:
  assumes "delimited rest"
  shows "parse_value (Suc f) (string_of_int n @ rest) = Some (JNum n, rest)"
proof (cases "n < 0")
  case True
  then show ?thesis
    by (simp add: string_of_int_def special_chars parse_nat_string_of_nat [OF assms])
next
  case False
  obtain c cs where c: "string_of_nat (nat n) = c # cs" and d: "is_digit c"
    using string_of_nat_Cons by blast
  have "parse_nat (c # cs @ rest) = Some (nat n, rest)"
    using parse_nat_string_of_nat [OF assms, of "nat n"] c by simp
  with False c show ?thesis
    by (simp add: string_of_int_def digit_not_special [OF d])
qed

lemma parse_empty_array: "parse_value (Suc f) (''[]'' @ rest) = Some (JArr [], rest)"
  by (simp add: expect_def special_chars)

lemma parse_empty_object: "parse_value (Suc f) (''{}'' @ rest) = Some (JObj [], rest)"
  by (simp add: expect_def special_chars)

lemma parse_array:
  assumes "expect CHR '']'' (px @ r1) = None"
    and "parse_value f (px @ r1) = Some (x, r1)"
    and "parse_elements f r1 = Some (xs, rest)"
  shows "parse_value (Suc f) (''['' @ px @ r1) = Some (JArr (x # xs), rest)"
  using assms by (simp add: special_chars)

lemma expect_same: "expect c (c # r) = Some r"
  by (simp add: expect_def)

lemma expect_quoted:
  "expect dquote (quoted k @ r) = Some (concat (map escape_char k) @ dquote # r)"
  "expect CHR ''}'' (quoted k @ r) = None"
  "expect CHR '']'' (quoted k @ r) = None"
  by (simp_all add: expect_def quoted_def special_chars)

lemma parse_object:
  assumes "parse_value f (pv @ r1) = Some (v, r1)"
    and "parse_members f r1 = Some (kvs, rest)"
  shows "parse_value (Suc f) (''{'' @ quoted k @ '':'' @ pv @ r1) = Some (JObj ((k, v) # kvs), rest)"
  using assms by (simp add: special_chars expect_quoted scan_string_escaped expect_same)

lemma parse_elements_end: "parse_elements (Suc f) ('']'' @ rest) = Some ([], rest)"
  by (simp add: expect_def)

lemma parse_elements_more:
  assumes "parse_value f (px @ r1) = Some (x, r1)"
    and "parse_elements f r1 = Some (xs, rest)"
  shows "parse_elements (Suc f) ('','' @ px @ r1) = Some (x # xs, rest)"
  using assms by (simp add: expect_def)

lemma parse_members_end: "parse_members (Suc f) (''}'' @ rest) = Some ([], rest)"
  by (simp add: expect_def)

lemma parse_members_more:
  assumes "parse_value f (pv @ r1) = Some (v, r1)"
    and "parse_members f r1 = Some (kvs, rest)"
  shows "parse_members (Suc f) ('','' @ quoted k @ '':'' @ pv @ r1) = Some ((k, v) # kvs, rest)"
proof -
  have "expect CHR '']'' ('','' @ quoted k @ '':'' @ pv @ r1) = None"
    and "expect CHR ''}'' ('','' @ quoted k @ '':'' @ pv @ r1) = None"
    and "expect CHR '','' ('','' @ quoted k @ '':'' @ pv @ r1) = Some (quoted k @ '':'' @ pv @ r1)"
    by (simp_all add: expect_def)
  with assms show ?thesis
    by (simp add: expect_quoted scan_string_escaped expect_same)
qed

lemma print_json_not_closing: "expect CHR '']'' (print_json v @ r) = None"
proof (cases v)
  case (JNum n)
  obtain c cs where "string_of_nat (nat n) = c # cs" and "is_digit c"
    using string_of_nat_Cons by blast
  with JNum show ?thesis
    by (simp add: expect_def string_of_int_def digit_not_special)
next
  case (JArr xs)
  then show ?thesis by (cases xs) (simp_all add: expect_def)
next
  case (JObj kvs)
  then show ?thesis by (cases kvs) (simp_all add: expect_def)
next
  case (JStr s)
  then show ?thesis by (simp add: expect_quoted)
qed (simp_all add: expect_def)

lemma delimited_elements: "delimited (print_elements xs @ rest)"
  by (cases xs) (simp_all add: delimited_def is_digit_def)

lemma delimited_members: "delimited (print_members kvs @ rest)"
  by (cases kvs) (simp_all add: delimited_def is_digit_def)

lemma delimited_Nil: "delimited []"
  by (simp add: delimited_def)

lemma print_lengths:
  "0 < length (print_json v)" "0 < length (print_elements xs)" "0 < length (print_members kvs)"
proof -
  obtain c cs where "string_of_nat (nat (case v of JNum n \<Rightarrow> n | _ \<Rightarrow> 0)) = c # cs"
    using string_of_nat_Cons by blast
  then show "0 < length (print_json v)"
    by (cases v rule: print_json.cases) (auto simp: quoted_def string_of_int_def)
  show "0 < length (print_elements xs)" by (cases xs) simp_all
  show "0 < length (print_members kvs)" by (cases kvs) simp_all
qed

lemma parse_print:
  "json_value v \<longrightarrow>
     (\<forall>f rest. length (print_json v) \<le> f \<longrightarrow> delimited rest \<longrightarrow>
        parse_value f (print_json v @ rest) = Some (v, rest))"
  "json_values xs \<longrightarrow>
     (\<forall>f rest. length (print_elements xs) \<le> f \<longrightarrow>
        parse_elements f (print_elements xs @ rest) = Some (xs, rest))"
  "json_members kvs \<longrightarrow>
     (\<forall>f rest. length (print_members kvs) \<le> f \<longrightarrow>
        parse_members f (print_members kvs @ rest) = Some (kvs, rest))"
proof (induction v and xs and kvs rule: print_json_print_elements_print_members.induct)
  case 1
  show ?case by simp
next
  case 2
  show ?case
  proof (intro impI allI)
    fix f :: nat and rest
    assume "length (print_json JNull) \<le> f"
    then obtain g where "f = Suc g" by (cases f) simp_all
    then show "parse_value f (print_json JNull @ rest) = Some (JNull, rest)"
      using parse_null by simp
  qed
next
  case (3 b)
  show ?case
  proof (intro impI allI)
    fix f :: nat and rest
    assume "length (print_json (JBool b)) \<le> f"
    then obtain g where "f = Suc g" by (cases f) (simp_all split: if_splits)
    then show "parse_value f (print_json (JBool b) @ rest) = Some (JBool b, rest)"
      using parse_bool by simp
  qed
next
  case (4 n)
  show ?case
  proof (intro impI allI)
    fix f :: nat and rest
    assume "length (print_json (JNum n)) \<le> f" and d: "delimited rest"
    with print_lengths(1) [of "JNum n"] obtain g where "f = Suc g" by (cases f) simp_all
    then show "parse_value f (print_json (JNum n) @ rest) = Some (JNum n, rest)"
      using parse_num [OF d] by simp
  qed
next
  case (5 s)
  show ?case
  proof (intro impI allI)
    fix f :: nat and rest
    assume "length (print_json (JStr s)) \<le> f"
    with print_lengths(1) [of "JStr s"] obtain g where "f = Suc g" by (cases f) simp_all
    then show "parse_value f (print_json (JStr s) @ rest) = Some (JStr s, rest)"
      using parse_str by simp
  qed
next
  case 6
  show ?case
  proof (intro impI allI)
    fix f :: nat and rest
    assume "length (print_json (JArr [])) \<le> f"
    then obtain g where "f = Suc g" by (cases f) simp_all
    then show "parse_value f (print_json (JArr []) @ rest) = Some (JArr [], rest)"
      using parse_empty_array by simp
  qed
next
  case (7 x xs)
  show ?case
  proof (intro impI allI)
    fix f :: nat and rest
    assume j: "json_value (JArr (x # xs))"
      and len: "length (print_json (JArr (x # xs))) \<le> f"
    from len obtain g where g: "f = Suc g" by (cases f) simp_all
    with len have lx: "length (print_json x) \<le> g" and lxs: "length (print_elements xs) \<le> g"
      by simp_all
    from j 7 lx have px: "parse_value g (print_json x @ (print_elements xs @ rest))
                          = Some (x, print_elements xs @ rest)"
      by (simp add: delimited_elements)
    from j 7 lxs have pxs: "parse_elements g (print_elements xs @ rest) = Some (xs, rest)"
      by simp
    from parse_array [OF print_json_not_closing px pxs] g
    show "parse_value f (print_json (JArr (x # xs)) @ rest) = Some (JArr (x # xs), rest)"
      by simp
  qed
next
  case 8
  show ?case
  proof (intro impI allI)
    fix f :: nat and rest
    assume "length (print_json (JObj [])) \<le> f"
    then obtain g where "f = Suc g" by (cases f) simp_all
    then show "parse_value f (print_json (JObj []) @ rest) = Some (JObj [], rest)"
      using parse_empty_object by simp
  qed
next
  case (9 kv kvs)
  show ?case
  proof (intro impI allI)
    fix f :: nat and rest
    assume j: "json_value (JObj (kv # kvs))"
      and len: "length (print_json (JObj (kv # kvs))) \<le> f"
    from len obtain g where g: "f = Suc g" by (cases f) simp_all
    with len have lv: "length (print_json (snd kv)) \<le> g"
      and lkvs: "length (print_members kvs) \<le> g"
      by simp_all
    from j 9 lv have pv: "parse_value g (print_json (snd kv) @ (print_members kvs @ rest))
                          = Some (snd kv, print_members kvs @ rest)"
      by (simp add: delimited_members)
    from j 9 lkvs have pkvs: "parse_members g (print_members kvs @ rest) = Some (kvs, rest)"
      by simp
    from parse_object [OF pv pkvs, of "fst kv"] g
    show "parse_value f (print_json (JObj (kv # kvs)) @ rest) = Some (JObj (kv # kvs), rest)"
      by simp
  qed
next
  case 10
  show ?case
  proof (intro impI allI)
    fix f :: nat and rest
    assume "length (print_elements []) \<le> f"
    then obtain g where "f = Suc g" by (cases f) simp_all
    then show "parse_elements f (print_elements [] @ rest) = Some ([], rest)"
      using parse_elements_end by simp
  qed
next
  case (11 x xs)
  show ?case
  proof (intro impI allI)
    fix f :: nat and rest
    assume j: "json_values (x # xs)"
      and len: "length (print_elements (x # xs)) \<le> f"
    from len obtain g where g: "f = Suc g" by (cases f) simp_all
    with len have lx: "length (print_json x) \<le> g" and lxs: "length (print_elements xs) \<le> g"
      by simp_all
    from j 11 lx have px: "parse_value g (print_json x @ (print_elements xs @ rest))
                           = Some (x, print_elements xs @ rest)"
      by (simp add: delimited_elements)
    from j 11 lxs have pxs: "parse_elements g (print_elements xs @ rest) = Some (xs, rest)"
      by simp
    from parse_elements_more [OF px pxs] g
    show "parse_elements f (print_elements (x # xs) @ rest) = Some (x # xs, rest)"
      by simp
  qed
next
  case 12
  show ?case
  proof (intro impI allI)
    fix f :: nat and rest
    assume "length (print_members []) \<le> f"
    then obtain g where "f = Suc g" by (cases f) simp_all
    then show "parse_members f (print_members [] @ rest) = Some ([], rest)"
      using parse_members_end by simp
  qed
next
  case (13 kv kvs)
  show ?case
  proof (intro impI allI)
    fix f :: nat and rest
    assume j: "json_members (kv # kvs)"
      and len: "length (print_members (kv # kvs)) \<le> f"
    from len obtain g where g: "f = Suc g" by (cases f) simp_all
    with len have lv: "length (print_json (snd kv)) \<le> g"
      and lkvs: "length (print_members kvs) \<le> g"
      by simp_all
    from j 13 lv have pv: "parse_value g (print_json (snd kv) @ (print_members kvs @ rest))
                           = Some (snd kv, print_members kvs @ rest)"
      by (simp add: delimited_members)
    from j 13 lkvs have pkvs: "parse_members g (print_members kvs @ rest) = Some (kvs, rest)"
      by simp
    from parse_members_more [OF pv pkvs, of "fst kv"] g
    show "parse_members f (print_members (kv # kvs) @ rest) = Some (kv # kvs, rest)"
      by simp
  qed
qed

lemma parse_json_print_json:
  assumes "json_value v"
  shows "parse_json (print_json v) = Some v"
proof -
  from parse_print(1) [of v] assms delimited_Nil
  have "parse_value (length (print_json v)) (print_json v @ []) = Some (v, [])"
    by blast
  then show ?thesis
    by (simp add: parse_json_def)
qed

section \<open>Saving and loading a session\<close>

text \<open>Reading the declared fields off the object of a typed value gives the value back.\<close>

lemma own_filter_defined:
  assumes "distinct (map fst kvs)"
  shows "own (filter (\<lambda>kv. snd kv \<noteq> JUndefined) kvs) k = own kvs k"
  using assms
proof (induction kvs)
  case Nil
  show ?case by simp
next
  case (Cons kv kvs)
  show ?case
  proof (cases "snd kv = JUndefined \<and> fst kv = k")
    case True
    with Cons.prems have "k \<notin> fst ` set (filter (\<lambda>kv. snd kv \<noteq> JUndefined) kvs)"
      by auto
    then have "map_of (filter (\<lambda>kv. snd kv \<noteq> JUndefined) kvs) k = None"
      by (simp add: map_of_eq_None_iff)
    with True show ?thesis
      by (cases kv) (simp add: own_def)
  next
    case False
    with Cons show ?thesis
      by (cases kv) (auto simp: own_def)
  qed
qed

lemma own_Cons: "own ((k', v) # kvs) k = (if k = k' then v else own kvs k)"
  by (simp add: own_def)

lemma own_Nil: "own [] k = JUndefined"
  by (simp add: own_def)

lemma own_obj:
  "distinct (map fst kvs) \<Longrightarrow> obj kvs = JObj kvs' \<Longrightarrow> own kvs' k = own kvs k"
  by (auto simp: obj_def own_filter_defined)

lemma Viewport_roundtrip: "Viewport_of_js (js_of_Viewport v) = Some v"
  by (simp add: js_of_Viewport_def own_def)

lemma opt_Viewport_roundtrip: "opt_Viewport_of_js (js_opt js_of_Viewport x) = Some x"
  by (cases x) (simp_all add: js_opt_def js_of_Viewport_def own_def)

lemma Config_roundtrip: "Config_of_js (js_of_Config c) = Some c"
proof -
  let ?kvs = "[(''headless'', js_opt JBool (headless c)),
               (''viewport'', js_opt js_of_Viewport (viewport c)),
               (''userAgent'', js_opt JStr (userAgent c))]"
  obtain kvs' where o: "js_of_Config c = JObj kvs'"
    by (simp add: js_of_Config_def obj_def)
  then have "obj ?kvs = JObj kvs'"
    by (simp add: js_of_Config_def)
  then have own: "own kvs' k = own ?kvs k" for k
    by (rule own_obj [rotated]) simp
  have "opt_bool_of (js_opt JBool (headless c)) = Some (headless c)"
    by (cases "headless c") (simp_all add: js_opt_def)
  moreover have "opt_str_of (js_opt JStr (userAgent c)) = Some (userAgent c)"
    by (cases "userAgent c") (simp_all add: js_opt_def)
  ultimately show ?thesis
    by (simp add: o own own_Cons own_Nil opt_Viewport_roundtrip)
qed

lemma opt_Config_roundtrip: "opt_Config_of_js (js_opt js_of_Config x) = Some x"
proof (cases x)
  case None
  then show ?thesis by (simp add: js_opt_def)
next
  case (Some c)
  obtain kvs' where "js_of_Config c = JObj kvs'"
    by (simp add: js_of_Config_def obj_def)
  with Some Config_roundtrip [of c] show ?thesis
    by (simp add: js_opt_def)
qed

lemma ActionRecord_roundtrip: "ActionRecord_of_js (js_of_ActionRecord a) = Some a"
proof -
  let ?kvs = "[(''id'', JStr (id_a a)), (''timestamp'', JStr (timestamp a)),
               (''tool'', JStr (tool a)), (''parameters'', parameters a),
               (''result'', result a), (''error'', js_opt JStr (error a)),
               (''duration'', js_opt JNum (duration a)), (''metadata'', metadata_a a),
               (''pageData'', pageData a)]"
  obtain kvs' where o: "js_of_ActionRecord a = JObj kvs'"
    by (simp add: js_of_ActionRecord_def obj_def)
  then have "obj ?kvs = JObj kvs'"
    by (simp add: js_of_ActionRecord_def)
  then have own: "own kvs' k = own ?kvs k" for k
    by (rule own_obj [rotated]) simp
  have "opt_str_of (js_opt JStr (error a)) = Some (error a)"
    by (cases "error a") (simp_all add: js_opt_def)
  moreover have "opt_num_of (js_opt JNum (duration a)) = Some (duration a)"
    by (cases "duration a") (simp_all add: js_opt_def)
  ultimately show ?thesis
    by (simp add: o own own_Cons own_Nil)
qed

lemma actions_roundtrip:
  "all_some (map (ActionRecord_of_js \<circ> js_of_ActionRecord) as) = Some as"
  by (induction as) (simp_all add: ActionRecord_roundtrip)

lemma Session_roundtrip: "Session_of_js (js_of_Session s) = Some s"
proof -
  let ?kvs = "[(''id'', JStr (id_s s)), (''instanceId'', JStr (instanceId s)),
               (''browserType'', JStr (browserType s)), (''startedAt'', JStr (startedAt s)),
               (''actions'', JArr (map js_of_ActionRecord (actions s))),
               (''metadata'', metadata_s s), (''config'', js_opt js_of_Config (config s)),
               (''endedAt'', js_opt JStr (endedAt s))]"
  obtain kvs' where o: "js_of_Session s = JObj kvs'"
    by (simp add: js_of_Session_def obj_def)
  then have "obj ?kvs = JObj kvs'"
    by (simp add: js_of_Session_def)
  then have own: "own kvs' k = own ?kvs k" for k
    by (rule own_obj [rotated]) simp
  have "opt_str_of (js_opt JStr (endedAt s)) = Some (endedAt s)"
    by (cases "endedAt s") (simp_all add: js_opt_def)
  then show ?thesis
    by (simp add: o own own_Cons own_Nil opt_Config_roundtrip actions_roundtrip)
qed

lemma json_members_iff: "json_members kvs = (\<forall>kv \<in> set kvs. json_value (snd kv))"
  by (induction kvs) simp_all

lemma json_values_iff: "json_values xs = (\<forall>x \<in> set xs. json_value x)"
  by (induction xs) simp_all

lemma json_value_obj:
  assumes "distinct (map fst kvs)" and "\<forall>kv \<in> set kvs. storable (snd kv)"
  shows "json_value (obj kvs)"
  using assms by (auto simp: obj_def json_members_iff storable_def distinct_map_filter)

lemma storable_opt:
  "(\<And>y. json_value (f y)) \<Longrightarrow> storable (js_opt f x)"
  by (cases x) (simp_all add: js_opt_def storable_def)

lemma storable_json: "json_value v \<Longrightarrow> storable v"
  by (simp add: storable_def)

lemma json_value_Config: "json_value (js_of_Config c)"
  unfolding js_of_Config_def
  by (rule json_value_obj) (simp_all add: storable_opt js_of_Viewport_def)

lemma json_value_ActionRecord:
  assumes "json_ActionRecord a"
  shows "json_value (js_of_ActionRecord a)"
  unfolding js_of_ActionRecord_def
  using assms
  by (intro json_value_obj) (simp_all add: storable_opt storable_json json_ActionRecord_def)

lemma json_value_Session:
  assumes "json_Session s"
  shows "json_value (js_of_Session s)"
proof -
  have "json_value (JArr (map js_of_ActionRecord (actions s)))"
    using assms
    by (simp add: json_values_iff json_Session_def list_all_iff json_value_ActionRecord)
  then show ?thesis
    unfolding js_of_Session_def
    using assms
    by (intro json_value_obj)
       (simp_all add: storable_opt storable_json json_Session_def json_value_Config)
qed


text \<open>
  C6. On a platform whose JSON codec reads back every JSON value it writes, saving a session
  whose fields are JSON-representable returns a path, and loading the file at that path
  gives the object of the session: read by its declared fields it is the session again,
  equal in every field, its action records included.
\<close>

theorem save_then_load:
  assumes codec: "\<And>v. json_value v \<Longrightarrow> parse P (stringify P v) = Some v"
    and session: "map_of (sessions st) iid = Some s"
    and json: "json_Session s"
  shows "\<exists>path st' doc. saveSession P st iid = (Inr path, st')
           \<and> loadSession P st' path = Inr doc
           \<and> doc = js_of_Session s \<and> Session_of_js doc = Some s"
proof -
  let ?path = "path_join P (sessionsDir st)
                 (''session_'' @ id_s s @ ''_'' @ dashes (toISOString P (clock st)) @ ''.json'')"
  let ?st' = "st\<lparr>files := AList.update ?path (stringify P (js_of_Session s)) (files st)\<rparr>"
  have save: "saveSession P st iid = (Inr ?path, ?st')"
    using session by (simp add: saveSession_def Let_def)
  have "parse P (stringify P (js_of_Session s)) = Some (js_of_Session s)"
    using json by (intro codec json_value_Session)
  then have "loadSession P ?st' ?path = Inr (js_of_Session s)"
    by (simp add: loadSession_def update_conv')
  with save Session_roundtrip [of s] show ?thesis by blast
qed

theorem save_then_load_witness:
  "json_Session
     (demo_session\<lparr>actions :=
        [(demo_record ''browser_fill''
            (JObj [(''selector'', JStr ''#q''), (''value'', JStr ''a \"b\" c''),
                   (''flags'', JArr [JBool True, JNull, JNum (- 7)])]))
         \<lparr>result := JObj [(''success'', JBool True)], duration := Some 12\<rparr>]\<rparr>)
   \<and> (\<exists>path st' doc.
        saveSession demo_platform
          ((demo_recorder True)\<lparr>sessions :=
             [(''i1'', demo_session\<lparr>actions :=
                [(demo_record ''browser_fill''
                    (JObj [(''selector'', JStr ''#q''), (''value'', JStr ''a \"b\" c''),
                           (''flags'', JArr [JBool True, JNull, JNum (- 7)])]))
                 \<lparr>result := JObj [(''success'', JBool True)], duration := Some 12\<rparr>]\<rparr>)]\<rparr>)
          ''i1'' = (Inr path, st')
        \<and> loadSession demo_platform st' path = Inr doc
        \<and> Session_of_js doc
          = Some (demo_session\<lparr>actions :=
                  [(demo_record ''browser_fill''
                      (JObj [(''selector'', JStr ''#q''), (''value'', JStr ''a \"b\" c''),
                             (''flags'', JArr [JBool True, JNull, JNum (- 7)])]))
                   \<lparr>result := JObj [(''success'', JBool True)], duration := Some 12\<rparr>]\<rparr>))"
proof -
  let ?s = "demo_session\<lparr>actions :=
        [(demo_record ''browser_fill''
            (JObj [(''selector'', JStr ''#q''), (''value'', JStr ''a \"b\" c''),
                   (''flags'', JArr [JBool True, JNull, JNum (- 7)])]))
         \<lparr>result := JObj [(''success'', JBool True)], duration := Some 12\<rparr>]\<rparr>"
  let ?st = "(demo_recorder True)\<lparr>sessions := [(''i1'', ?s)]\<rparr>"
  have codec: "\<And>v. json_value v \<Longrightarrow> parse demo_platform (stringify demo_platform v) = Some v"
    by (simp add: demo_platform_def parse_json_print_json)
  have session: "map_of (sessions ?st) ''i1'' = Some ?s"
    by simp
  have json: "json_Session ?s"
    by (simp add: json_Session_def json_ActionRecord_def storable_def demo_session_def
        demo_record_def)
  from save_then_load [of demo_platform ?st "''i1''" ?s, OF codec session json] json
  show ?thesis by blast
qed

section \<open>The generated test\<close>



















text \<open>
  Two documents that are not sessions of the recorder. A file that holds an object with
  an identifier and an empty list of actions, named by its path, gives a test (ending as
  every test does). A file that holds \<^verbatim>\<open>null\<close> and is listed before the file of the session
  looked for ends the search by identifier: the session is reported as not found.
\<close>

lemma parse_null_document: "parse_json (print_json JNull) = Some JNull"
  by (rule parse_json_print_json) simp

lemma parse_foreign_document:
  "parse_json (print_json (JObj [(''id'', JStr ''s1''), (''actions'', JArr [])]))
   = Some (JObj [(''id'', JStr ''s1''), (''actions'', JArr [])])"
  by (rule parse_json_print_json) simp

lemma test_source_foreign_document:
  "test_source demo_platform (JObj [(''id'', JStr ''s1''), (''actions'', JArr [])])
     \<lparr>testName = None, expectedString = None, timeout = None\<rparr>
   = Inr (join [newline]
       [''import { test, expect } from '' @ sq ''@playwright/test'' @ '';'',
        '''',
        ''test('' @ sq ''Test session s1'' @ '', async ({ page }) => {'',
        ''  test.setTimeout(30000);'',
        '''',
        ''  // Verify page loaded without errors'',
        ''  const url = page.url();'',
        ''  expect(url).toBeTruthy();'',
        ''});''])"
  by (simp add: test_source_def test_head_def test_name_def viewport_lines_def
      actionsToReplay_def expected_lines_def liveness_lines_def thenE_def member_def
      opt_member_def own_def Let_def number_text_def string_of_int_def string_of_nat.simps
      digit_char_def)

lemma foreign_document_gives_test:
  "generatePlaywrightTest demo_platform
     ((demo_recorder True)\<lparr>files := [(''sessions/x.json'',
                   print_json (JObj [(''id'', JStr ''s1''), (''actions'', JArr [])]))]\<rparr>)
     ''sessions/x.json'' \<lparr>testName = None, expectedString = None, timeout = None\<rparr>
   = Inr (join [newline]
       [''import { test, expect } from '' @ sq ''@playwright/test'' @ '';'',
        '''',
        ''test('' @ sq ''Test session s1'' @ '', async ({ page }) => {'',
        ''  test.setTimeout(30000);'',
        '''',
        ''  // Verify page loaded without errors'',
        ''  const url = page.url();'',
        ''  expect(url).toBeTruthy();'',
        ''});''])"
proof -
  have "str_includes ''sessions/x.json'' ''/''"
    by (simp add: str_includes_def upt_rec)
  moreover have "loadSession demo_platform
     ((demo_recorder True)\<lparr>files := [(''sessions/x.json'',
                   print_json (JObj [(''id'', JStr ''s1''), (''actions'', JArr [])]))]\<rparr>)
     ''sessions/x.json'' = Inr (JObj [(''id'', JStr ''s1''), (''actions'', JArr [])])"
    by (simp add: loadSession_def demo_platform_def parse_foreign_document
        del: print_json.simps)
  ultimately show ?thesis
    by (simp add: generatePlaywrightTest_def resolveSession_def thenE_def
        test_source_foreign_document del: print_json.simps)
qed

lemma saved_documents_listed:
  "listSavedSessions demo_platform
     ((demo_recorder True)\<lparr>sessions := [],
        files := [(''sessions/a.json'', print_json JNull),
                  (''sessions/b.json'',
                   print_json (JObj [(''id'', JStr ''s1''), (''actions'', JArr [])]))]\<rparr>)
   = [(''a.json'', JNull), (''b.json'', JObj [(''id'', JStr ''s1''), (''actions'', JArr [])])]"
  by (simp add: listSavedSessions_def demo_platform_def demo_recorder_def names_under_def
      endsWith_def loadSession_def parse_null_document parse_foreign_document
      del: print_json.simps)

lemma null_document_ends_search:
  "generatePlaywrightTest demo_platform
     ((demo_recorder True)\<lparr>sessions := [],
        files := [(''sessions/a.json'', print_json JNull),
                  (''sessions/b.json'',
                   print_json (JObj [(''id'', JStr ''s1''), (''actions'', JArr [])]))]\<rparr>)
     ''s1'' \<lparr>testName = None, expectedString = None, timeout = None\<rparr>
   = Inl (SessionNotFound ''s1'')"
proof -
  have "\<not> str_includes ''s1'' ''/'' \<and> \<not> str_includes ''s1'' ''.json''"
    by (simp add: str_includes_def upt_rec)
  then show ?thesis
    by (simp add: generatePlaywrightTest_def resolveSession_def findSessionById_def
        saved_documents_listed member_def thenE_def del: print_json.simps)
qed

section \<open>Further properties\<close>

text \<open>
  Replay fidelity: on the logging tool surface, basic replay of a session given by value
  issues exactly one call per recorded action, in the recorded order, each with the
  recorded parameters and the identity of the new instance under \<^verbatim>\<open>instanceId\<close>.
\<close>

theorem replaySession_issues_every_action:
  "snd (replaySession P st (logging n) (ByValue s) w)
   = w @ map (\<lambda>a. (tool a, JObj (AList.update ''instanceId'' (JStr n) (spread (parameters a)))))
           (actions s)"
proof -
  have "snd (replay_actions (logging n) n (actions s) [] w)
        = w @ map (\<lambda>a. (tool a, JObj (AList.update ''instanceId'' (JStr n) (spread (parameters a)))))
                (actions s)"
    by (rule replay_actions_calls)
  moreover have "createInstance (logging n) cfg w
                 = (Inr \<lparr>cr_success = True, cr_instanceId = n, cr_error = None\<rparr>, w)" for cfg
    by (simp add: logging_def)
  ultimately show ?thesis
    by (auto simp: replaySession_def split: prod.splits)
qed

text \<open>The filter that opens verification replay and test generation leaves no creation action.\<close>

lemma strict_eq_JStr: "strict_eq t (JStr s) = (t = JStr s)"
  by (cases t) auto

lemma actionsToReplay_skips_creation:
  assumes "filter_actions xs = Inr ys" and "a \<in> set ys"
  shows "member a ''tool'' \<noteq> Inr (JStr ''browser_create_instance'')"
  using assms
  by (induction xs arbitrary: ys)
     (auto simp: thenE_def strict_eq_JStr split: sum.splits if_splits)

text \<open>
  In deep mode the comparator's \<open>match\<close> is the strict equality of the two URLs, whatever
  the titles and the content lengths.
\<close>

theorem deep_match_only_compares_urls:
  assumes "compareResults P original replay t True = Inr c"
  shows "match c = strict_eq (opt_member (opt_member original ''data'') ''url'')
                             (opt_member (opt_member replay ''data'') ''url'')"
  using assms by (rule deep_match_is_url_equality)

theorem deep_match_only_compares_urls_witness:
  "compareResults demo_platform
     (JObj [(''success'', JBool True), (''data'', JObj [(''content'', JStr (replicate 500 CHR ''X''))])])
     (JObj [(''success'', JBool True), (''data'', JObj [(''content'', JStr (replicate 520 CHR ''X''))])])
     ''browser_get_page_info'' True
   = Inr \<lparr>match = True, differences = JUndefined\<rparr>
   \<and> match \<lparr>match = True, differences = JUndefined\<rparr>
     = strict_eq
         (opt_member (opt_member
            (JObj [(''success'', JBool True),
                   (''data'', JObj [(''content'', JStr (replicate 500 CHR ''X''))])]) ''data'') ''url'')
         (opt_member (opt_member
            (JObj [(''success'', JBool True),
                   (''data'', JObj [(''content'', JStr (replicate 520 CHR ''X''))])]) ''data'') ''url'')"
  using deep_match_only_compares_urls [OF compare_small_drift] compare_small_drift
  by simp

text \<open>
  Append-only recording: with recording on, a session for the instance and a result that
  the capture policy processes without an exception, \<open>recordAction\<close> returns normally and
  the actions of the session are those before followed by one new record.
\<close>

theorem recordAction_appends_one_record:
  assumes "recordingEnabled st" and "map_of (sessions st) iid = Some s"
    and "stored_result P st act = Inr res"
  shows "fst (recordAction P st iid act) = Inr ()
         \<and> (\<exists>r. recorded_actions (snd (recordAction P st iid act)) iid = actions s @ [r])"
proof -
  let ?r = "\<lparr>id_a = uuidv4 P (uuids st), timestamp = toISOString P (clock st),
             tool = in_tool act, parameters = sanitizeParameters (in_parameters act),
             result = res, error = in_error act,
             duration = Some (int (clock st) - int (clock st)),
             metadata_a = in_metadata act, pageData = in_pageData act\<rparr>"
  let ?st2 = "st\<lparr>uuids := Suc (uuids st),
                 sessions := AList.update iid (s\<lparr>actions := actions s @ [?r]\<rparr>) (sessions st)\<rparr>"
  have run: "recordAction P st iid act = auto_save P ?st2 iid"
    using assms by (simp add: recordAction_def Let_def)
  have found: "map_of (sessions ?st2) iid = Some (s\<lparr>actions := actions s @ [?r]\<rparr>)"
    by (simp add: update_conv')
  then have ok: "fst (auto_save P ?st2 iid) = Inr ()"
    by (simp add: auto_save_def saveSession_def Let_def)
  have "sessions (snd (auto_save P ?st2 iid)) = sessions ?st2"
    by (rule auto_save_sessions [OF surjective_pairing])
  with found have "recorded_actions (snd (auto_save P ?st2 iid)) iid = actions s @ [?r]"
    by (simp add: recorded_actions_def)
  with ok run show ?thesis by auto
qed

theorem recordAction_appends_one_record_witness:
  "recordingEnabled (demo_recorder True)
   \<and> map_of (sessions (demo_recorder True)) ''i1'' = Some demo_session
   \<and> stored_result demo_platform (demo_recorder True)
       (demo_action ''browser_click'' (JObj []) JUndefined) = Inr JUndefined
   \<and> fst (recordAction demo_platform (demo_recorder True) ''i1''
            (demo_action ''browser_click'' (JObj []) JUndefined)) = Inr ()
   \<and> (\<exists>r. recorded_actions
              (snd (recordAction demo_platform (demo_recorder True) ''i1''
                      (demo_action ''browser_click'' (JObj []) JUndefined))) ''i1''
            = actions demo_session @ [r])"
proof -
  have h1: "recordingEnabled (demo_recorder True)"
    by (simp add: demo_recorder_def)
  have h2: "map_of (sessions (demo_recorder True)) ''i1'' = Some demo_session"
    by (simp add: demo_recorder_def)
  have h3: "stored_result demo_platform (demo_recorder True)
              (demo_action ''browser_click'' (JObj []) JUndefined) = Inr JUndefined"
    by (rule demo_no_result)
  from recordAction_appends_one_record [OF h1 h2 h3] h1 h2 h3
  show ?thesis by blast
qed

text \<open>
  Recording without a session: with no session for the instance, \<open>recordAction\<close> and
  \<open>endSession\<close> return normally and change nothing.
\<close>

theorem no_session_is_noop:
  assumes "map_of (sessions st) iid = None"
  shows "recordAction P st iid act = (Inr (), st) \<and> endSession P st iid = (Inr (), st)"
  using assms by (simp add: recordAction_def endSession_def)

theorem no_session_is_noop_witness:
  "map_of (sessions (demo_recorder True)) ''i9'' = None
   \<and> recordAction demo_platform (demo_recorder True) ''i9''
        (demo_action ''browser_click'' (JObj []) JUndefined) = (Inr (), demo_recorder True)
   \<and> endSession demo_platform (demo_recorder True) ''i9'' = (Inr (), demo_recorder True)"
proof -
  have h: "map_of (sessions (demo_recorder True)) ''i9'' = None"
    by (simp add: demo_recorder_def)
  from no_session_is_noop [OF h] h show ?thesis
    by simp
qed

text \<open>
  The parameter sanitizer on the store: it returns a new object and leaves every object
  that existed before the call as it was.
\<close>

lemma assign_other: "b \<noteq> a \<Longrightarrow> cell_at (assign h a k v) b = cell_at h b"
  by (auto simp: assign_def cell_at_def split: cell.splits)

lemma assign_length: "length (assign h a k v) = length h"
  by (simp add: assign_def split: cell.splits)

lemma hredact_fields_other:
  "b \<noteq> a \<Longrightarrow> cell_at (foldl (hredact_field a) h fs) b = cell_at h b"
  by (induction fs arbitrary: h) (simp_all add: hredact_field_def assign_other)

theorem sanitizeParameters_keeps_callers_objects:
  assumes "b < length h"
  shows "fst (sanitizeParameters_h h params) = HRef (length h)
         \<and> cell_at (snd (sanitizeParameters_h h params)) b = cell_at h b"
proof -
  from assms have ne: "b \<noteq> length h" by simp
  have "cell_at (h @ [Obj (hspread h params)]) b = cell_at h b"
    using assms by (simp add: cell_at_def nth_append)
  with ne show ?thesis
    by (simp add: sanitizeParameters_h_def alloc_def Let_def assign_other hredact_fields_other)
qed

theorem sanitizeParameters_keeps_callers_objects_witness:
  "(0::nat) < length [Obj [(''password'', HStr ''hunter2''), (''options'', HRef 0)]]
   \<and> fst (sanitizeParameters_h [Obj [(''password'', HStr ''hunter2''), (''options'', HRef 0)]] (HRef 0))
       = HRef 1
   \<and> cell_at (snd (sanitizeParameters_h
                      [Obj [(''password'', HStr ''hunter2''), (''options'', HRef 0)]] (HRef 0))) 0
       = Obj [(''password'', HStr ''hunter2''), (''options'', HRef 0)]"
proof -
  have h: "(0::nat) < length [Obj [(''password'', HStr ''hunter2''), (''options'', HRef 0)]]"
    by simp
  from sanitizeParameters_keeps_callers_objects [OF h, of "HRef 0"] h show ?thesis
    by (simp add: cell_at_def)
qed

text \<open>
  The content-length tier on two strings: the \<^verbatim>\<open>contentLength\<close> entry is recorded exactly
  when both contents are non-empty and their lengths differ by more than a tenth of the
  original length; a difference of at most a tenth leaves no entry.
\<close>

theorem content_length_entry_on_strings:
  "content_length_entry P (JStr a) (JStr b)
   = Inr (if a \<noteq> [] \<and> b \<noteq> []
             \<and> 10 * \<bar>int (length a) - int (length b)\<bar> > int (length a)
          then Some (JObj [(''original'', JNum (int (length a))),
                           (''replay'', JNum (int (length b))),
                           (''difference'', JNum \<bar>int (length a) - int (length b)\<bar>)])
          else None)"
  by (simp add: content_length_entry_def own_hd Let_def)

end
